theory Spec2Isabelle
  imports Complex_Main "HOL-Library.Word"
begin

section \<open>Machine types and errors\<close>

text \<open>
  Go's \<open>int32\<close> is a 32-bit word read as a signed number (\<open>sint\<close>); Go's \<open>int\<close> is taken
  to be 64 bits wide (the 64-bit platforms the controller is built for). The conversion
  \<open>int32(w)\<close> of an \<open>int\<close> keeps the low 32 bits (\<open>ucast\<close>), the conversion \<open>int(x)\<close> of an
  \<open>int32\<close> extends the sign (\<open>scast\<close>).
\<close>

type_synonym int32 = "32 word"
type_synonym goint = "64 word"

text \<open>A \<open>metav1.Time\<close> is a point in time, here a number of ticks.\<close>

type_synonym Time = nat

text \<open>
  A Go \<open>error\<close>: a not-found answer of the API server, another failure with its message,
  or an error wrapped by \<open>fmt.Errorf("...: %w", err)\<close>.
\<close>

datatype error = NotFound string | Failure string | Wrapped string error

fun Error :: "error \<Rightarrow> string" where
  "Error (NotFound s) = s"
| "Error (Failure s) = s"
| "Error (Wrapped p e) = p @ '': '' @ Error e"

fun IsNotFound :: "error \<Rightarrow> bool" where
  "IsNotFound (NotFound s) = True"
| "IsNotFound (Failure s) = False"
| "IsNotFound (Wrapped p e) = IsNotFound e"

text \<open>A call either returns or panics (an index out of range).\<close>

datatype 'a outcome = Panic | Return 'a

section \<open>The CanaryDeployment types (pkg/api/v1alpha1)\<close>

text \<open>
  A \<open>float64\<close> is a finite value, an infinity or NaN. The program only compares floats, so
  a finite float is represented by the real number it denotes.
\<close>

datatype float64 = Finite real | PosInf | NegInf | NaN

fun f64_lt :: "float64 \<Rightarrow> float64 \<Rightarrow> bool" where
  "f64_lt NaN y = False"
| "f64_lt x NaN = False"
| "f64_lt (Finite a) (Finite b) = (a < b)"
| "f64_lt x NegInf = False"
| "f64_lt NegInf y = True"
| "f64_lt PosInf y = False"
| "f64_lt x PosInf = True"

fun f64_eq :: "float64 \<Rightarrow> float64 \<Rightarrow> bool" where
  "f64_eq NaN y = False"
| "f64_eq x NaN = False"
| "f64_eq x y = (x = y)"

definition f64_gt :: "float64 \<Rightarrow> float64 \<Rightarrow> bool" where
  "f64_gt x y = f64_lt y x"

definition f64_le :: "float64 \<Rightarrow> float64 \<Rightarrow> bool" where
  "f64_le x y = (f64_lt x y \<or> f64_eq x y)"

definition f64_ge :: "float64 \<Rightarrow> float64 \<Rightarrow> bool" where
  "f64_ge x y = (f64_lt y x \<or> f64_eq x y)"

definition f64_ne :: "float64 \<Rightarrow> float64 \<Rightarrow> bool" where
  "f64_ne x y = (\<not> f64_eq x y)"

definition CanaryDeploymentPhasePending :: string where
  "CanaryDeploymentPhasePending = ''Pending''"

definition CanaryDeploymentPhaseProgressing :: string where
  "CanaryDeploymentPhaseProgressing = ''Progressing''"

definition CanaryDeploymentPhasePaused :: string where
  "CanaryDeploymentPhasePaused = ''Paused''"

definition CanaryDeploymentPhaseSucceeded :: string where
  "CanaryDeploymentPhaseSucceeded = ''Succeeded''"

definition CanaryDeploymentPhaseFailed :: string where
  "CanaryDeploymentPhaseFailed = ''Failed''"

definition CanaryDeploymentPhaseRollingBack :: string where
  "CanaryDeploymentPhaseRollingBack = ''RollingBack''"

record TrafficSplitStep =
  Weight :: int32
  Duration :: string
  Pause :: bool

record AnalysisMetric =
  am_Name :: string
  Query :: string
  Threshold :: float64
  Operator :: string

record AnalysisTemplate =
  Metrics :: "AnalysisMetric list"
  SuccessRate :: float64
  MaxLatency :: int32
  AnalysisInterval :: string

record WorkloadRef =
  APIVersion :: string
  Kind :: string
  wr_Name :: string

record ServiceRef =
  sr_Name :: string
  sr_Port :: int32

record GatewayRef =
  gw_HTTPRoute :: string
  gw_Gateway :: string
  gw_Namespace :: string

record CanaryDeploymentSpec =
  TargetRef :: WorkloadRef
  Service :: ServiceRef
  Gateway :: GatewayRef
  TrafficSplit :: "TrafficSplitStep list"
  Analysis :: AnalysisTemplate
  AutoPromote :: bool
  SkipAnalysis :: bool

record MetricResult =
  mr_Name :: string
  mr_Value :: float64
  mr_Threshold :: float64
  mr_Passed :: bool

record AnalysisRunStatus =
  ars_Phase :: string
  ars_SuccessRate :: float64
  ars_AverageLatency :: int32
  ars_MetricResults :: "MetricResult list"
  ars_StartedAt :: "Time option"
  ars_CompletedAt :: "Time option"

text \<open>A \<open>metav1.Condition\<close>; the controller never reads or writes one.\<close>

type_synonym Condition = string

record CanaryDeploymentStatus =
  Phase :: string
  Message :: string
  CurrentStep :: int32
  CanaryWeight :: int32
  StableWeight :: int32
  Conditions :: "Condition list"
  LastTransitionTime :: "Time option"
  AnalysisRun :: "AnalysisRunStatus option"

text \<open>
  Of the object metadata the controller uses the name, the namespace, the annotations (a Go
  map: a missing key reads as the empty string) and the deletion timestamp.
\<close>

record CanaryDeployment =
  Name :: string
  Namespace :: string
  Annotations :: "string \<rightharpoonup> string"
  DeletionTimestamp :: "Time option"
  Spec :: CanaryDeploymentSpec
  Status :: CanaryDeploymentStatus

definition annotation :: "CanaryDeployment \<Rightarrow> string \<Rightarrow> string" where
  "annotation canary k = (case Annotations canary k of None \<Rightarrow> [] | Some v \<Rightarrow> v)"

section \<open>The Gateway API route (sigs.k8s.io/gateway-api/apis/v1)\<close>

text \<open>
  The route types belong to the Gateway API library. An \<open>HTTPBackendRef\<close> embeds a
  \<open>BackendRef\<close>, which embeds a \<open>BackendObjectReference\<close>; the record lists the
  promoted fields. Filters, timeouts, parent references and the route status are carried as
  uninterpreted values.
\<close>

record HTTPBackendRef =
  bk_Group :: "string option"
  bk_Kind :: "string option"
  bk_Name :: string
  bk_Namespace :: "string option"
  bk_Port :: "int32 option"
  bk_Weight :: "int32 option"
  bk_Filters :: "string list"

record HTTPRouteMatch =
  Path :: "string option"
  Headers :: "(string \<times> string) list"
  QueryParams :: "(string \<times> string) list"
  Method :: "string option"

record HTTPRouteRule =
  Matches :: "HTTPRouteMatch list"
  Filters :: "string list"
  BackendRefs :: "HTTPBackendRef list"
  Timeouts :: "string option"

record HTTPRoute =
  rt_Name :: string
  rt_Namespace :: string
  ParentRefs :: "string list"
  Hostnames :: "string list"
  Rules :: "HTTPRouteRule list"
  rt_Status :: string

section \<open>The world outside the controller\<close>

text \<open>
  The JSON answer of the metrics backend, as \<open>GetMetric\<close> decodes it: a sample's
  \<open>value\<close> is a list of arbitrary JSON values, of which only strings matter.
\<close>

datatype json_value = JString string | JOther

record PrometheusSample =
  ps_Metric :: "(string \<times> string) list"
  ps_Value :: "json_value list"

record PrometheusResponse =
  pr_Status :: string
  pr_ResultType :: string
  pr_Result :: "PrometheusSample list"

text \<open>
  What an HTTP request to the backend comes to: the request cannot be built or sent, or a
  reply arrives with a status code and a body that cannot be read, is not the expected JSON,
  or decodes to a response.
\<close>

datatype http_body = ReadError error | Malformed error | Decoded PrometheusResponse

datatype http_reply = DoError error | Reply nat http_body

text \<open>
  The world holds the objects of the API server, the outcome of the API calls to come
  (\<open>faults\<close>: each call takes the head, \<open>Some e\<close> makes it fail with \<open>e\<close>, an empty
  list lets every call through), the metrics backend (its reply to the \<open>n\<close>-th query, for a
  base URL and a query), the log of the queries made so far, the clock, and the functions
  of the Go library and runtime that the controller calls: \<open>time.ParseDuration\<close>,
  \<open>strconv.ParseFloat\<close>, the conversion of a float that no \<open>int32\<close> represents, and the
  order in which a map is iterated.
\<close>

record world =
  canaries :: "CanaryDeployment list"
  routes :: "HTTPRoute list"
  faults :: "error option list"
  prometheus :: "nat \<Rightarrow> string \<Rightarrow> string \<Rightarrow> http_reply"
  queries :: "string list"
  clock :: Time
  ParseDuration :: "string \<Rightarrow> error + int"
  ParseFloat :: "string \<Rightarrow> error + float64"
  convertOutOfRange :: "float64 \<Rightarrow> int32"
  mapOrder :: "(string \<times> string) list \<Rightarrow> (string \<times> string) list"

definition nextFault :: "world \<Rightarrow> error option \<times> world" where
  "nextFault w = (case faults w of [] \<Rightarrow> (None, w) | f # fs \<Rightarrow> (f, w\<lparr>faults := fs\<rparr>))"

definition isRoute :: "string \<Rightarrow> string \<Rightarrow> HTTPRoute \<Rightarrow> bool" where
  "isRoute ns name r = (rt_Namespace r = ns \<and> rt_Name r = name)"

definition isCanary :: "string \<Rightarrow> string \<Rightarrow> CanaryDeployment \<Rightarrow> bool" where
  "isCanary ns name c = (Namespace c = ns \<and> Name c = name)"

text \<open>\<open>client.Get\<close> of a route, by namespace and name.\<close>

definition client_Get_HTTPRoute :: "world \<Rightarrow> string \<Rightarrow> string \<Rightarrow> (error + HTTPRoute) \<times> world" where
  "client_Get_HTTPRoute w ns name =
     (case nextFault w of
        (Some e, w') \<Rightarrow> (Inl e, w')
      | (None, w') \<Rightarrow>
          (case find (isRoute ns name) (routes w') of
             None \<Rightarrow> (Inl (NotFound (name @ '' not found'')), w')
           | Some r \<Rightarrow> (Inr r, w')))"

text \<open>\<open>client.Update\<close> of a route: the stored object of that namespace and name is replaced.\<close>

definition client_Update_HTTPRoute :: "world \<Rightarrow> HTTPRoute \<Rightarrow> error option \<times> world" where
  "client_Update_HTTPRoute w r =
     (case nextFault w of
        (Some e, w') \<Rightarrow> (Some e, w')
      | (None, w') \<Rightarrow>
          (case find (isRoute (rt_Namespace r) (rt_Name r)) (routes w') of
             None \<Rightarrow> (Some (NotFound (rt_Name r @ '' not found'')), w')
           | Some old \<Rightarrow>
               (None, w'\<lparr>routes :=
                  map (\<lambda>x. if isRoute (rt_Namespace r) (rt_Name r) x then r else x) (routes w')\<rparr>)))"

section \<open>Route Mutator (package gateway)\<close>

definition backendRef :: "string \<Rightarrow> int32 \<Rightarrow> int32 \<Rightarrow> HTTPBackendRef" where
  "backendRef name port weight =
     \<lparr>bk_Group = None, bk_Kind = None, bk_Name = name, bk_Namespace = None,
      bk_Port = Some port, bk_Weight = Some weight, bk_Filters = []\<rparr>"

definition emptyMatch :: HTTPRouteMatch where
  "emptyMatch = \<lparr>Path = None, Headers = [], QueryParams = [], Method = None\<rparr>"

definition updateHTTPRouteBackends ::
  "HTTPRoute \<Rightarrow> CanaryDeployment \<Rightarrow> goint \<Rightarrow> error option \<times> HTTPRoute" where
  "updateHTTPRouteBackends httpRoute canary canaryWeight =
     (let stableWeight = 100 - canaryWeight;
          stableBackend = backendRef (sr_Name (Service (Spec canary)))
                            (sr_Port (Service (Spec canary))) (ucast stableWeight);
          canaryBackend = backendRef (sr_Name (Service (Spec canary)) @ ''-canary'')
                            (sr_Port (Service (Spec canary))) (ucast canaryWeight)
      in (None,
          httpRoute\<lparr>Rules :=
            map (\<lambda>rule.
                   (let rule1 = (if length (Matches rule) = 0
                                 then rule\<lparr>Matches := [emptyMatch]\<rparr> else rule)
                    in if canaryWeight = 0 then rule1\<lparr>BackendRefs := [stableBackend]\<rparr>
                       else if canaryWeight = 100 then rule1\<lparr>BackendRefs := [canaryBackend]\<rparr>
                       else rule1\<lparr>BackendRefs := [stableBackend, canaryBackend]\<rparr>))
                (Rules httpRoute)\<rparr>))"

definition httpRouteNamespace :: "CanaryDeployment \<Rightarrow> string" where
  "httpRouteNamespace canary =
     (if gw_Namespace (Gateway (Spec canary)) = [] then Namespace canary
      else gw_Namespace (Gateway (Spec canary)))"

definition UpdateTrafficSplit :: "world \<Rightarrow> CanaryDeployment \<Rightarrow> goint \<Rightarrow> error option \<times> world" where
  "UpdateTrafficSplit w canary canaryWeight =
     (case client_Get_HTTPRoute w (httpRouteNamespace canary)
             (gw_HTTPRoute (Gateway (Spec canary))) of
        (Inl err, w1) \<Rightarrow>
          (Some (Wrapped (''failed to get HTTPRoute '' @ httpRouteNamespace canary @ ''/''
                            @ gw_HTTPRoute (Gateway (Spec canary))) err), w1)
      | (Inr httpRoute, w1) \<Rightarrow>
          (case updateHTTPRouteBackends httpRoute canary canaryWeight of
             (Some err, httpRoute') \<Rightarrow>
               (Some (Wrapped ''failed to update HTTPRoute backends'' err), w1)
           | (None, httpRoute') \<Rightarrow>
               (case client_Update_HTTPRoute w1 httpRoute' of
                  (Some err, w2) \<Rightarrow> (Some (Wrapped ''failed to update HTTPRoute'' err), w2)
                | (None, w2) \<Rightarrow> (None, w2))))"

definition Cleanup :: "world \<Rightarrow> CanaryDeployment \<Rightarrow> error option \<times> world" where
  "Cleanup w canary =
     (case UpdateTrafficSplit w canary 0 of
        (Some err, w1) \<Rightarrow> (Some (Wrapped ''failed to cleanup traffic split'' err), w1)
      | (None, w1) \<Rightarrow> (None, w1))"

section \<open>Formatting and strings (fmt, strings)\<close>

text \<open>The verb \<open>%d\<close> of \<open>fmt.Sprintf\<close>: a number in decimal.\<close>

function showNat :: "nat \<Rightarrow> string" where
  "showNat n = (if n < 10 then [char_of (48 + n)]
                else showNat (n div 10) @ [char_of (48 + n mod 10)])"
  by pat_completeness auto
termination
  by (relation "measure id") auto

declare showNat.simps [simp del]

definition showInt :: "int \<Rightarrow> string" where
  "showInt i = (if i < 0 then CHR ''-'' # showNat (nat (- i)) else showNat (nat i))"

text \<open>
  \<open>strings.ReplaceAll s old new\<close> for a non-empty \<open>old\<close> (the controller only replaces
  its four placeholders): the occurrences of \<open>old\<close> are replaced from left to right,
  without overlap.
\<close>

function ReplaceAll :: "string \<Rightarrow> string \<Rightarrow> string \<Rightarrow> string" where
  "ReplaceAll s old new =
     (if s = [] \<or> old = [] then s
      else if take (length old) s = old then new @ ReplaceAll (drop (length old) s) old new
      else hd s # ReplaceAll (tl s) old new)"
  by pat_completeness auto
termination
  by (relation "measure (\<lambda>(s, old, new). length s)") auto

declare ReplaceAll.simps [simp del]

definition newline :: char where
  "newline = char_of (10 :: nat)"

definition tab :: char where
  "tab = char_of (9 :: nat)"

definition dquote :: char where
  "dquote = char_of (34 :: nat)"

section \<open>Analyzer (package metrics)\<close>

record AnalysisResult =
  ar_Phase :: string
  ar_SuccessRate :: float64
  ar_AverageLatency :: int32
  ar_MetricResults :: "MetricResult list"
  ar_StartedAt :: "Time option"
  ar_CompletedAt :: "Time option"
  ar_Passed :: bool

record PrometheusProvider =
  baseURL :: string

text \<open>
  \<open>GetMetric\<close>: one query to the backend. The query is logged; the three steps that build
  and send the request (\<open>url.Parse\<close>, \<open>http.NewRequestWithContext\<close>, \<open>client.Do\<close>) fail
  alike and are one case of the reply. Reading \<open>Value[1]\<close> of a sample with fewer than two
  values panics.
\<close>

definition GetMetric ::
  "PrometheusProvider \<Rightarrow> world \<Rightarrow> string \<Rightarrow> (error + float64) outcome \<times> world" where
  "GetMetric p w query =
     (let w1 = w\<lparr>queries := queries w @ [query]\<rparr>
      in case prometheus w (length (queries w)) (baseURL p) query of
           DoError err \<Rightarrow> (Return (Inl err), w1)
         | Reply code body \<Rightarrow>
             if code \<noteq> 200
             then (Return (Inl (Failure (''prometheus query failed with status ''
                                          @ showInt (int code)))), w1)
             else (case body of
                     ReadError err \<Rightarrow> (Return (Inl err), w1)
                   | Malformed err \<Rightarrow> (Return (Inl err), w1)
                   | Decoded promResp \<Rightarrow>
                       if pr_Status promResp \<noteq> ''success''
                       then (Return (Inl (Failure (''prometheus query failed: ''
                                                    @ pr_Status promResp))), w1)
                       else (case pr_Result promResp of
                               [] \<Rightarrow> (Return (Inl (Failure
                                        ''no data returned from prometheus query'')), w1)
                             | sample # others \<Rightarrow>
                                 (case ps_Value sample of
                                    v0 # valueInterface # vs \<Rightarrow>
                                      (case valueInterface of
                                         JOther \<Rightarrow> (Return (Inl (Failure
                                           ''unexpected value type from prometheus'')), w1)
                                       | JString valueStr \<Rightarrow>
                                           (case ParseFloat w valueStr of
                                              Inl err \<Rightarrow> (Return (Inl (Wrapped
                                                ''failed to parse prometheus value'' err)), w1)
                                            | Inr v \<Rightarrow> (Return (Inr v), w1)))
                                  | short \<Rightarrow> (Panic, w1)))))"

text \<open>
  \<open>replaceQueryPlaceholders\<close> ranges over a Go map, in the order the runtime chooses.
\<close>

definition replaceQueryPlaceholders :: "world \<Rightarrow> string \<Rightarrow> CanaryDeployment \<Rightarrow> string" where
  "replaceQueryPlaceholders w query canary =
     (let replacements =
            [(''{{.Service}}'', sr_Name (Service (Spec canary))),
             (''{{.CanaryService}}'', sr_Name (Service (Spec canary)) @ ''-canary''),
             (''{{.Namespace}}'', Namespace canary),
             (''{{.Name}}'', Name canary)]
      in foldl (\<lambda>result (placeholder, v). ReplaceAll result placeholder v)
           query (mapOrder w replacements))"

definition compareValues :: "float64 \<Rightarrow> float64 \<Rightarrow> string \<Rightarrow> bool" where
  "compareValues v threshold operator =
     (if operator = ''>'' then f64_gt v threshold
      else if operator = ''>='' then f64_ge v threshold
      else if operator = ''<'' then f64_lt v threshold
      else if operator = ''<='' then f64_le v threshold
      else if operator = ''=='' then f64_eq v threshold
      else if operator = ''!='' then f64_ne v threshold
      else False)"

definition evaluateMetric ::
  "PrometheusProvider \<Rightarrow> world \<Rightarrow> CanaryDeployment \<Rightarrow> AnalysisMetric
     \<Rightarrow> (error + MetricResult) outcome \<times> world" where
  "evaluateMetric p w canary metric =
     (let query = replaceQueryPlaceholders w (Query metric) canary
      in case GetMetric p w query of
           (Panic, w1) \<Rightarrow> (Panic, w1)
         | (Return (Inl err), w1) \<Rightarrow> (Return (Inl err), w1)
         | (Return (Inr v), w1) \<Rightarrow>
             (let passed = compareValues v (Threshold metric) (Operator metric)
              in (Return (Inr \<lparr>mr_Name = am_Name metric, mr_Value = v,
                               mr_Threshold = Threshold metric, mr_Passed = passed\<rparr>), w1)))"

definition successRateQuery :: "CanaryDeployment \<Rightarrow> string" where
  "successRateQuery canary =
     [newline, tab, tab] @ ''sum(rate(http_requests_total{service='' @ [dquote]
       @ sr_Name (Service (Spec canary)) @ ''-canary'' @ [dquote] @ '',code!~'' @ [dquote]
       @ ''5..'' @ [dquote] @ ''}[5m])) /'' @ [newline, tab, tab]
       @ ''sum(rate(http_requests_total{service='' @ [dquote]
       @ sr_Name (Service (Spec canary)) @ ''-canary'' @ [dquote] @ ''}[5m]))''
       @ [newline, tab]"

definition getSuccessRate ::
  "PrometheusProvider \<Rightarrow> world \<Rightarrow> CanaryDeployment \<Rightarrow> (error + float64) outcome \<times> world" where
  "getSuccessRate p w canary = GetMetric p w (successRateQuery canary)"

definition latencyQuery :: "CanaryDeployment \<Rightarrow> string" where
  "latencyQuery canary =
     [newline, tab, tab] @ ''histogram_quantile(0.95,'' @ [newline, tab, tab, tab]
       @ ''sum(rate(http_request_duration_seconds_bucket{service='' @ [dquote]
       @ sr_Name (Service (Spec canary)) @ ''-canary'' @ [dquote] @ ''}[5m])) by (le)''
       @ [newline, tab, tab] @ '') * 1000'' @ [newline, tab]"

text \<open>
  The conversion \<open>int32(value)\<close> drops the fraction; its result for a value that no
  \<open>int32\<close> represents is left to the implementation by the language.
\<close>

definition float64_to_int32 :: "world \<Rightarrow> float64 \<Rightarrow> int32" where
  "float64_to_int32 w v =
     (case v of
        Finite r \<Rightarrow>
          (let t = (if 0 \<le> r then \<lfloor>r\<rfloor> else \<lceil>r\<rceil>)
           in if - (2 ^ 31) \<le> t \<and> t < 2 ^ 31 then word_of_int t else convertOutOfRange w v)
      | PosInf \<Rightarrow> convertOutOfRange w v
      | NegInf \<Rightarrow> convertOutOfRange w v
      | NaN \<Rightarrow> convertOutOfRange w v)"

definition getAverageLatency ::
  "PrometheusProvider \<Rightarrow> world \<Rightarrow> CanaryDeployment \<Rightarrow> (error + int32) outcome \<times> world" where
  "getAverageLatency p w canary =
     (case GetMetric p w (latencyQuery canary) of
        (Panic, w1) \<Rightarrow> (Panic, w1)
      | (Return (Inl err), w1) \<Rightarrow> (Return (Inl err), w1)
      | (Return (Inr v), w1) \<Rightarrow> (Return (Inr (float64_to_int32 w1 v)), w1))"

text \<open>
  \<open>RunAnalysis\<close>, in the order of the source: the loop over the configured metrics, the
  success-rate check, the latency check, the verdict. Each part returns the result built so
  far and the error, if any, with which \<open>RunAnalysis\<close> returns at once.
\<close>

fun RunAnalysis_metrics ::
  "PrometheusProvider \<Rightarrow> CanaryDeployment \<Rightarrow> AnalysisMetric list \<Rightarrow> AnalysisResult \<Rightarrow> world
     \<Rightarrow> error option outcome \<times> AnalysisResult \<times> world" where
  "RunAnalysis_metrics p canary [] result w = (Return None, result, w)"
| "RunAnalysis_metrics p canary (metric # rest) result w =
     (case evaluateMetric p w canary metric of
        (Panic, w1) \<Rightarrow> (Panic, result, w1)
      | (Return (Inl err), w1) \<Rightarrow>
          (Return (Some (Wrapped (''failed to evaluate metric '' @ am_Name metric) err)),
           result\<lparr>ar_Phase := ''Failed'', ar_Passed := False\<rparr>, w1)
      | (Return (Inr metricResult), w1) \<Rightarrow>
          (let result1 = result\<lparr>ar_MetricResults := ar_MetricResults result @ [metricResult]\<rparr>;
               result2 = (if \<not> mr_Passed metricResult then result1\<lparr>ar_Passed := False\<rparr>
                          else result1)
           in RunAnalysis_metrics p canary rest result2 w1))"

definition RunAnalysis_successRate ::
  "PrometheusProvider \<Rightarrow> CanaryDeployment \<Rightarrow> AnalysisResult \<Rightarrow> world
     \<Rightarrow> error option outcome \<times> AnalysisResult \<times> world" where
  "RunAnalysis_successRate p canary result w =
     (if f64_gt (SuccessRate (Analysis (Spec canary))) (Finite 0)
      then (case getSuccessRate p w canary of
              (Panic, w1) \<Rightarrow> (Panic, result, w1)
            | (Return (Inl err), w1) \<Rightarrow>
                (Return (Some (Wrapped ''failed to get success rate'' err)),
                 result\<lparr>ar_Phase := ''Failed'', ar_Passed := False\<rparr>, w1)
            | (Return (Inr successRate), w1) \<Rightarrow>
                (let result1 = result\<lparr>ar_SuccessRate := successRate\<rparr>
                 in (Return None,
                     (if f64_lt successRate (SuccessRate (Analysis (Spec canary)))
                      then result1\<lparr>ar_Passed := False\<rparr> else result1), w1)))
      else (Return None, result, w))"

definition RunAnalysis_latency ::
  "PrometheusProvider \<Rightarrow> CanaryDeployment \<Rightarrow> AnalysisResult \<Rightarrow> world
     \<Rightarrow> error option outcome \<times> AnalysisResult \<times> world" where
  "RunAnalysis_latency p canary result w =
     (if 0 < sint (MaxLatency (Analysis (Spec canary)))
      then (case getAverageLatency p w canary of
              (Panic, w1) \<Rightarrow> (Panic, result, w1)
            | (Return (Inl err), w1) \<Rightarrow>
                (Return (Some (Wrapped ''failed to get latency'' err)),
                 result\<lparr>ar_Phase := ''Failed'', ar_Passed := False\<rparr>, w1)
            | (Return (Inr latency), w1) \<Rightarrow>
                (let result1 = result\<lparr>ar_AverageLatency := latency\<rparr>
                 in (Return None,
                     (if sint (MaxLatency (Analysis (Spec canary))) < sint latency
                      then result1\<lparr>ar_Passed := False\<rparr> else result1), w1)))
      else (Return None, result, w))"

definition RunAnalysis ::
  "PrometheusProvider \<Rightarrow> world \<Rightarrow> CanaryDeployment
     \<Rightarrow> (AnalysisResult \<times> error option) outcome \<times> world" where
  "RunAnalysis p w canary =
     (let startTime = clock w;
          result = \<lparr>ar_Phase = ''Running'', ar_SuccessRate = Finite 0, ar_AverageLatency = 0,
                    ar_MetricResults = [], ar_StartedAt = Some startTime,
                    ar_CompletedAt = None, ar_Passed = True\<rparr>
      in case RunAnalysis_metrics p canary (Metrics (Analysis (Spec canary))) result w of
           (Panic, result1, w1) \<Rightarrow> (Panic, w1)
         | (Return (Some err), result1, w1) \<Rightarrow> (Return (result1, Some err), w1)
         | (Return None, result1, w1) \<Rightarrow>
             (case RunAnalysis_successRate p canary result1 w1 of
                (Panic, result2, w2) \<Rightarrow> (Panic, w2)
              | (Return (Some err), result2, w2) \<Rightarrow> (Return (result2, Some err), w2)
              | (Return None, result2, w2) \<Rightarrow>
                  (case RunAnalysis_latency p canary result2 w2 of
                     (Panic, result3, w3) \<Rightarrow> (Panic, w3)
                   | (Return (Some err), result3, w3) \<Rightarrow> (Return (result3, Some err), w3)
                   | (Return None, result3, w3) \<Rightarrow>
                       (let result4 = result3\<lparr>ar_Phase := ''Completed''\<rparr>;
                            result5 = (if ar_Passed result4
                                       then result4\<lparr>ar_Phase := ''Successful''\<rparr>
                                       else result4\<lparr>ar_Phase := ''Failed''\<rparr>);
                            result6 = result5\<lparr>ar_CompletedAt := Some (clock w3)\<rparr>
                        in (Return (result6, None), w3)))))"

section \<open>Reconciler (package controller)\<close>

text \<open>
  The client calls on the rollout. The status is a subresource: \<open>r.Update\<close> stores the
  object's metadata and spec and leaves the stored status as it is, \<open>r.Status().Update\<close>
  stores the status. Both fail when the object is gone. A successful \<open>r.Update\<close> also
  overwrites the object in memory with the server's answer, the stored object, so that the
  status in memory is the stored one afterwards. The answer to \<open>r.Status().Update\<close>
  carries the status that was sent; every handler returns right after that call, and its
  refresh is not modelled.
\<close>

definition client_Get_Canary ::
  "world \<Rightarrow> string \<Rightarrow> string \<Rightarrow> (error + CanaryDeployment) \<times> world" where
  "client_Get_Canary w ns name =
     (case nextFault w of
        (Some e, w') \<Rightarrow> (Inl e, w')
      | (None, w') \<Rightarrow>
          (case find (isCanary ns name) (canaries w') of
             None \<Rightarrow> (Inl (NotFound (name @ '' not found'')), w')
           | Some c \<Rightarrow> (Inr c, w')))"

definition client_Update_Canary ::
  "world \<Rightarrow> CanaryDeployment \<Rightarrow> (error + CanaryDeployment) \<times> world" where
  "client_Update_Canary w c =
     (case nextFault w of
        (Some e, w') \<Rightarrow> (Inl e, w')
      | (None, w') \<Rightarrow>
          (case find (isCanary (Namespace c) (Name c)) (canaries w') of
             None \<Rightarrow> (Inl (NotFound (Name c @ '' not found'')), w')
           | Some old \<Rightarrow>
               (Inr (old\<lparr>Annotations := Annotations c, Spec := Spec c\<rparr>),
                w'\<lparr>canaries :=
                  map (\<lambda>x. if isCanary (Namespace c) (Name c) x
                            then x\<lparr>Annotations := Annotations c, Spec := Spec c\<rparr> else x)
                      (canaries w')\<rparr>)))"

definition client_Status_Update :: "world \<Rightarrow> CanaryDeployment \<Rightarrow> error option \<times> world" where
  "client_Status_Update w c =
     (case nextFault w of
        (Some e, w') \<Rightarrow> (Some e, w')
      | (None, w') \<Rightarrow>
          (case find (isCanary (Namespace c) (Name c)) (canaries w') of
             None \<Rightarrow> (Some (NotFound (Name c @ '' not found'')), w')
           | Some old \<Rightarrow>
               (None, w'\<lparr>canaries :=
                  map (\<lambda>x. if isCanary (Namespace c) (Name c) x
                            then x\<lparr>Status := Status c\<rparr> else x)
                      (canaries w')\<rparr>)))"

text \<open>
  A \<open>ctrl.Result\<close>; a \<open>time.Duration\<close> counts nanoseconds. The reconciler holds the
  metrics provider, which may be nil.
\<close>

record Result =
  Requeue :: bool
  RequeueAfter :: int

definition Second :: int where
  "Second = 1000000000"

definition emptyResult :: Result where
  "emptyResult = \<lparr>Requeue = False, RequeueAfter = 0\<rparr>"

definition requeueAfter :: "int \<Rightarrow> Result" where
  "requeueAfter d = \<lparr>Requeue = False, RequeueAfter = d\<rparr>"

record CanaryDeploymentReconciler =
  MetricsProvider :: "PrometheusProvider option"

definition validateCanaryDeployment :: "world \<Rightarrow> CanaryDeployment \<Rightarrow> error option" where
  "validateCanaryDeployment w canary = None"

text \<open>
  A handler returns the \<open>(ctrl.Result, error)\<close> pair (or panics), the rollout object as it
  stands in memory, and the world.
\<close>

type_synonym handled = "(Result \<times> error option) outcome \<times> CanaryDeployment \<times> world"

definition handlePending ::
  "CanaryDeploymentReconciler \<Rightarrow> world \<Rightarrow> CanaryDeployment \<Rightarrow> handled" where
  "handlePending r w canary =
     (case validateCanaryDeployment w canary of
        Some err \<Rightarrow>
          (let canary1 = canary\<lparr>Status := (Status canary)
                 \<lparr>Phase := CanaryDeploymentPhaseFailed,
                  Message := ''Validation failed: '' @ Error err\<rparr>\<rparr>
           in case client_Status_Update w canary1 of
                (ignored, w1) \<Rightarrow> (Return (emptyResult, Some err), canary1, w1))
      | None \<Rightarrow>
          (let canary1 = canary\<lparr>Status := (Status canary)
                 \<lparr>Phase := CanaryDeploymentPhaseProgressing,
                  Message := ''Starting canary deployment'',
                  LastTransitionTime := Some (clock w)\<rparr>\<rparr>
           in case client_Status_Update w canary1 of
                (Some err, w1) \<Rightarrow> (Return (emptyResult, Some err), canary1, w1)
              | (None, w1) \<Rightarrow> (Return (requeueAfter (Second * 5), None), canary1, w1)))"

definition runAnalysis ::
  "CanaryDeploymentReconciler \<Rightarrow> world \<Rightarrow> CanaryDeployment
     \<Rightarrow> (bool \<times> error option) outcome \<times> CanaryDeployment \<times> world" where
  "runAnalysis r w canary =
     (case MetricsProvider r of
        None \<Rightarrow> (Return (True, None), canary, w)
      | Some p \<Rightarrow>
          (case RunAnalysis p w canary of
             (Panic, w1) \<Rightarrow> (Panic, canary, w1)
           | (Return (result, Some err), w1) \<Rightarrow> (Return (False, Some err), canary, w1)
           | (Return (result, None), w1) \<Rightarrow>
               (Return (ar_Passed result, None),
                canary\<lparr>Status := (Status canary)\<lparr>AnalysisRun := Some
                  \<lparr>ars_Phase = ar_Phase result,
                   ars_SuccessRate = ar_SuccessRate result,
                   ars_AverageLatency = ar_AverageLatency result,
                   ars_MetricResults = ar_MetricResults result,
                   ars_StartedAt = ar_StartedAt result,
                   ars_CompletedAt = ar_CompletedAt result\<rparr>\<rparr>\<rparr>,
                w1)))"

text \<open>The end of \<open>handleProgressing\<close>: move to the next step and wait for the step's duration.\<close>

definition moveToNextStep :: "world \<Rightarrow> CanaryDeployment \<Rightarrow> TrafficSplitStep \<Rightarrow> handled" where
  "moveToNextStep w canary currentStep =
     (let canary1 = canary\<lparr>Status := (Status canary)
            \<lparr>CurrentStep := CurrentStep (Status canary) + 1\<rparr>\<rparr>
      in case client_Status_Update w canary1 of
           (ignored, w1) \<Rightarrow>
             (let d = (if Duration currentStep \<noteq> []
                       then (case ParseDuration w1 (Duration currentStep) of
                               Inr duration \<Rightarrow> duration
                             | Inl err \<Rightarrow> Second * 30)
                       else Second * 30)
              in (Return (requeueAfter d, None), canary1, w1)))"

text \<open>The middle of \<open>handleProgressing\<close>: the analysis after the weight change of an unpaused step.\<close>

definition analyseStep ::
  "CanaryDeploymentReconciler \<Rightarrow> world \<Rightarrow> CanaryDeployment \<Rightarrow> TrafficSplitStep \<Rightarrow> handled" where
  "analyseStep r w canary currentStep =
     (if \<not> SkipAnalysis (Spec canary) \<and> f64_gt (SuccessRate (Analysis (Spec canary))) (Finite 0)
      then (case runAnalysis r w canary of
              (Panic, canary1, w1) \<Rightarrow> (Panic, canary1, w1)
            | (Return (passed, Some err), canary1, w1) \<Rightarrow>
                (let canary2 = canary1\<lparr>Status := (Status canary1)
                       \<lparr>Message := ''Analysis failed: '' @ Error err\<rparr>\<rparr>
                 in case client_Status_Update w1 canary2 of
                      (ignored, w2) \<Rightarrow> (Return (requeueAfter (Second * 30), None), canary2, w2))
            | (Return (passed, None), canary1, w1) \<Rightarrow>
                if \<not> passed
                then (let canary2 = canary1\<lparr>Status := (Status canary1)
                            \<lparr>Phase := CanaryDeploymentPhaseRollingBack,
                             Message := ''Analysis failed, rolling back'',
                             LastTransitionTime := Some (clock w1)\<rparr>\<rparr>
                      in case client_Status_Update w1 canary2 of
                           (ignored, w2) \<Rightarrow>
                             (Return (requeueAfter (Second * 5), None), canary2, w2))
                else moveToNextStep w1 canary1 currentStep)
      else moveToNextStep w canary currentStep)"

definition handleProgressing ::
  "CanaryDeploymentReconciler \<Rightarrow> world \<Rightarrow> CanaryDeployment \<Rightarrow> handled" where
  "handleProgressing r w canary =
     (if int (length (TrafficSplit (Spec canary))) \<le> sint (CurrentStep (Status canary))
      then (let canary1 = canary\<lparr>Status := (Status canary)
                  \<lparr>Phase := CanaryDeploymentPhaseSucceeded,
                   Message := ''Canary deployment completed successfully'',
                   CanaryWeight := 100,
                   StableWeight := 0,
                   LastTransitionTime := Some (clock w)\<rparr>\<rparr>
            in case client_Status_Update w canary1 of
                 (ignored, w1) \<Rightarrow> (Return (emptyResult, None), canary1, w1))
      else if sint (CurrentStep (Status canary)) < 0 then (Panic, canary, w)
      else
        (let currentStep = TrafficSplit (Spec canary) ! nat (sint (CurrentStep (Status canary)))
         in case UpdateTrafficSplit w canary (scast (Weight currentStep)) of
              (Some err, w1) \<Rightarrow>
                (let canary1 = canary\<lparr>Status := (Status canary)
                       \<lparr>Message := ''Failed to update traffic split: '' @ Error err\<rparr>\<rparr>
                 in case client_Status_Update w1 canary1 of
                      (ignored, w2) \<Rightarrow> (Return (requeueAfter (Second * 30), None), canary1, w2))
            | (None, w1) \<Rightarrow>
                (let canary1 = canary\<lparr>Status := (Status canary)
                       \<lparr>CanaryWeight := Weight currentStep,
                        StableWeight := 100 - Weight currentStep,
                        Message := ''Traffic split updated: ''
                          @ showInt (sint (Weight currentStep)) @ ''% canary, ''
                          @ showInt (sint (100 - Weight currentStep)) @ ''% stable''\<rparr>\<rparr>
                 in if Pause currentStep
                    then (let canary2 = canary1\<lparr>Status := (Status canary1)
                                \<lparr>Phase := CanaryDeploymentPhasePaused,
                                 Message := ''Paused at step ''
                                   @ showInt (sint (CurrentStep (Status canary1) + 1))
                                   @ '' for manual approval'',
                                 LastTransitionTime := Some (clock w1)\<rparr>\<rparr>
                          in case client_Status_Update w1 canary2 of
                               (ignored, w2) \<Rightarrow> (Return (emptyResult, None), canary2, w2))
                    else analyseStep r w1 canary1 currentStep)))"

definition handlePaused ::
  "CanaryDeploymentReconciler \<Rightarrow> world \<Rightarrow> CanaryDeployment \<Rightarrow> handled" where
  "handlePaused r w canary =
     (if annotation canary ''gateway-cd.io/resume'' = ''true''
      then (let canary1 = canary\<lparr>Annotations := (Annotations canary)(''gateway-cd.io/resume'' := None)\<rparr>;
                canary2 = canary1\<lparr>Status := (Status canary1)
                  \<lparr>Phase := CanaryDeploymentPhaseProgressing,
                   CurrentStep := CurrentStep (Status canary1) + 1,
                   Message := ''Resumed from pause'',
                   LastTransitionTime := Some (clock w)\<rparr>\<rparr>
            in case client_Update_Canary w canary2 of
                 (Inl err, w1) \<Rightarrow> (Return (emptyResult, Some err), canary2, w1)
               | (Inr canary3, w1) \<Rightarrow>
                   (case client_Status_Update w1 canary3 of
                      (Some err, w2) \<Rightarrow> (Return (emptyResult, Some err), canary3, w2)
                    | (None, w2) \<Rightarrow> (Return (requeueAfter (Second * 5), None), canary3, w2)))
      else if annotation canary ''gateway-cd.io/abort'' = ''true''
      then (let canary1 = canary\<lparr>Status := (Status canary)
                  \<lparr>Phase := CanaryDeploymentPhaseRollingBack,
                   Message := ''Aborted by user'',
                   LastTransitionTime := Some (clock w)\<rparr>\<rparr>
            in case client_Status_Update w canary1 of
                 (ignored, w1) \<Rightarrow> (Return (requeueAfter (Second * 5), None), canary1, w1))
      else (Return (requeueAfter (Second * 30), None), canary, w))"

definition handleRollingBack ::
  "CanaryDeploymentReconciler \<Rightarrow> world \<Rightarrow> CanaryDeployment \<Rightarrow> handled" where
  "handleRollingBack r w canary =
     (case UpdateTrafficSplit w canary 0 of
        (Some err, w1) \<Rightarrow> (Return (requeueAfter (Second * 10), None), canary, w1)
      | (None, w1) \<Rightarrow>
          (let canary1 = canary\<lparr>Status := (Status canary)
                 \<lparr>Phase := CanaryDeploymentPhaseFailed,
                  CanaryWeight := 0,
                  StableWeight := 100,
                  Message := ''Rollback completed'',
                  LastTransitionTime := Some (clock w1)\<rparr>\<rparr>
           in case client_Status_Update w1 canary1 of
                (ignored, w2) \<Rightarrow> (Return (emptyResult, None), canary1, w2)))"

definition handleDeletion ::
  "CanaryDeploymentReconciler \<Rightarrow> world \<Rightarrow> CanaryDeployment \<Rightarrow> handled" where
  "handleDeletion r w canary =
     (case Cleanup w canary of
        (Some err, w1) \<Rightarrow> (Return (emptyResult, Some err), canary, w1)
      | (None, w1) \<Rightarrow> (Return (emptyResult, None), canary, w1))"

text \<open>\<open>Reconcile\<close> returns what the handler returns; the object in memory is dropped.\<close>

definition returned :: "handled \<Rightarrow> (Result \<times> error option) outcome \<times> world" where
  "returned h = (case h of (res, canary, w) \<Rightarrow> (res, w))"

definition Reconcile ::
  "CanaryDeploymentReconciler \<Rightarrow> world \<Rightarrow> string \<Rightarrow> string
     \<Rightarrow> (Result \<times> error option) outcome \<times> world" where
  "Reconcile r w ns name =
     (case client_Get_Canary w ns name of
        (Inl err, w1) \<Rightarrow>
          if IsNotFound err then (Return (emptyResult, None), w1)
          else (Return (emptyResult, Some err), w1)
      | (Inr canary, w1) \<Rightarrow>
          if DeletionTimestamp canary \<noteq> None then returned (handleDeletion r w1 canary)
          else if Phase (Status canary) = []
          then (let canary1 = canary\<lparr>Status := (Status canary)
                      \<lparr>Phase := CanaryDeploymentPhasePending,
                       CurrentStep := 0,
                       CanaryWeight := 0,
                       StableWeight := 100,
                       LastTransitionTime := Some (clock w1)\<rparr>\<rparr>
                in case client_Status_Update w1 canary1 of
                     (Some err, w2) \<Rightarrow> (Return (emptyResult, Some err), w2)
                   | (None, w2) \<Rightarrow> (Return (requeueAfter (Second * 5), None), w2))
          else if Phase (Status canary) = CanaryDeploymentPhasePending
          then returned (handlePending r w1 canary)
          else if Phase (Status canary) = CanaryDeploymentPhaseProgressing
          then returned (handleProgressing r w1 canary)
          else if Phase (Status canary) = CanaryDeploymentPhasePaused
          then returned (handlePaused r w1 canary)
          else if Phase (Status canary) = CanaryDeploymentPhaseRollingBack
          then returned (handleRollingBack r w1 canary)
          else if Phase (Status canary) = CanaryDeploymentPhaseSucceeded
                  \<or> Phase (Status canary) = CanaryDeploymentPhaseFailed
          then (Return (emptyResult, None), w1)
          else (Return (emptyResult, None), w1))"

section \<open>Measures and example objects\<close>


text \<open>
  A rollout of two steps, 20 and 100 percent, with a success-rate criterion of 0.99, its
  route with one rule that has no match, and a world that holds both.
\<close>

definition exampleSpec :: CanaryDeploymentSpec where
  "exampleSpec =
     \<lparr>TargetRef = \<lparr>APIVersion = ''apps/v1'', Kind = ''Deployment'', wr_Name = ''app''\<rparr>,
      Service = \<lparr>sr_Name = ''app'', sr_Port = 80\<rparr>,
      Gateway = \<lparr>gw_HTTPRoute = ''app-route'', gw_Gateway = [], gw_Namespace = []\<rparr>,
      TrafficSplit = [\<lparr>Weight = 20, Duration = ''1s'', Pause = False\<rparr>,
                      \<lparr>Weight = 100, Duration = [], Pause = False\<rparr>],
      Analysis = \<lparr>Metrics = [], SuccessRate = Finite (99 / 100), MaxLatency = 0,
                  AnalysisInterval = []\<rparr>,
      AutoPromote = False,
      SkipAnalysis = False\<rparr>"

definition exampleCanary :: "string \<Rightarrow> CanaryDeployment" where
  "exampleCanary phase =
     \<lparr>Name = ''app'', Namespace = ''demo'', Annotations = Map.empty,
      DeletionTimestamp = None, Spec = exampleSpec,
      Status = \<lparr>Phase = phase, Message = [], CurrentStep = 0, CanaryWeight = 0,
                StableWeight = 100, Conditions = [], LastTransitionTime = None,
                AnalysisRun = None\<rparr>\<rparr>"

definition exampleRoute :: HTTPRoute where
  "exampleRoute =
     \<lparr>rt_Name = ''app-route'', rt_Namespace = ''demo'', ParentRefs = [''gw''],
      Hostnames = [''app.example.com''],
      Rules = [\<lparr>Matches = [], Filters = [], BackendRefs = [backendRef ''app'' 80 1],
                Timeouts = None\<rparr>],
      rt_Status = []\<rparr>"

definition exampleWorld :: "(nat \<Rightarrow> string \<Rightarrow> string \<Rightarrow> http_reply) \<Rightarrow> CanaryDeployment \<Rightarrow> world" where
  "exampleWorld backend c =
     \<lparr>canaries = [c], routes = [exampleRoute], faults = [], prometheus = backend,
      queries = [], clock = 7,
      ParseDuration = (\<lambda>s. if s = ''1s'' then Inr Second else Inl (Failure ''invalid duration'')),
      ParseFloat = (\<lambda>s. if s = ''0.8'' then Inr (Finite (8 / 10))
                         else Inl (Failure ''invalid syntax'')),
      convertOutOfRange = (\<lambda>v. 0),
      mapOrder = (\<lambda>xs. xs)\<rparr>"

text \<open>A backend that cannot be reached, and one that answers every query with 0.8.\<close>

definition unreachable :: "nat \<Rightarrow> string \<Rightarrow> string \<Rightarrow> http_reply" where
  "unreachable n base query = DoError (Failure ''connection refused'')"

definition answers08 :: "nat \<Rightarrow> string \<Rightarrow> string \<Rightarrow> http_reply" where
  "answers08 n base query =
     Reply 200 (Decoded \<lparr>pr_Status = ''success'', pr_ResultType = ''vector'',
                          pr_Result = [\<lparr>ps_Metric = [], ps_Value = [JOther, JString ''0.8'']\<rparr>]\<rparr>)"

definition exampleReconciler :: CanaryDeploymentReconciler where
  "exampleReconciler = \<lparr>MetricsProvider = Some \<lparr>baseURL = ''http://prometheus:9090''\<rparr>\<rparr>"

text \<open>
  The queries \<open>qs\<close>, made one after the other from the world \<open>w\<close>, are all answered with
  a value.
\<close>

fun answered :: "PrometheusProvider \<Rightarrow> world \<Rightarrow> string list \<Rightarrow> bool" where
  "answered p w [] = True"
| "answered p w (q # qs) =
     (case GetMetric p w q of
        (Return (Inr v), w1) \<Rightarrow> answered p w1 qs
      | (other, w1) \<Rightarrow> False)"

text \<open>A backend that answers the first query with 0.8 and cannot be reached afterwards.\<close>

definition answersOnce :: "nat \<Rightarrow> string \<Rightarrow> string \<Rightarrow> http_reply" where
  "answersOnce n base query = (if n < 1 then answers08 n base query else unreachable n base query)"

text \<open>
  The example rollout with two named metrics, and with one named metric whose operator is
  not one of the six.
\<close>

definition twoMetrics :: "AnalysisMetric list" where
  "twoMetrics =
     [\<lparr>am_Name = ''availability'', Query = ''up_{{.Name}}'', Threshold = Finite (1 / 2),
       Operator = ''>=''\<rparr>,
      \<lparr>am_Name = ''errors'', Query = ''errors'', Threshold = Finite 1, Operator = ''<''\<rparr>]"

definition oddMetric :: AnalysisMetric where
  "oddMetric = \<lparr>am_Name = ''errors'', Query = ''errors'', Threshold = Finite 1, Operator = ''=<''\<rparr>"

definition withMetrics :: "AnalysisMetric list \<Rightarrow> CanaryDeployment \<Rightarrow> CanaryDeployment" where
  "withMetrics ms c = c\<lparr>Spec := (Spec c)\<lparr>Analysis := (Analysis (Spec c))\<lparr>Metrics := ms\<rparr>\<rparr>\<rparr>"

text \<open>The example rollout with an intent annotation, and a world whose next API call fails.\<close>

definition withAnnotation :: "string \<Rightarrow> CanaryDeployment \<Rightarrow> CanaryDeployment" where
  "withAnnotation k c = c\<lparr>Annotations := (Annotations c)(k \<mapsto> ''true'')\<rparr>"

definition failingNext :: "world \<Rightarrow> world" where
  "failingNext w = w\<lparr>faults := [Some (Failure ''timeout'')]\<rparr>"

text \<open>The example rollout with another success-rate criterion.\<close>

definition withSuccessRate :: "float64 \<Rightarrow> CanaryDeployment \<Rightarrow> CanaryDeployment" where
  "withSuccessRate v c = c\<lparr>Spec := (Spec c)\<lparr>Analysis := (Analysis (Spec c))\<lparr>SuccessRate := v\<rparr>\<rparr>\<rparr>"

text \<open>
  The example rollout with the two named metrics: once with the success-rate criterion of
  0.99, once without a success-rate criterion. The example route after the write of weight 20.
\<close>

definition bothCriteria :: CanaryDeployment where
  "bothCriteria = withMetrics twoMetrics (exampleCanary ''Progressing'')"

definition metricsOnly :: CanaryDeployment where
  "metricsOnly = withSuccessRate (Finite 0) (withMetrics twoMetrics (exampleCanary ''Progressing''))"

definition exampleRoute20 :: HTTPRoute where
  "exampleRoute20 =
     exampleRoute\<lparr>Rules :=
       [\<lparr>Matches = [emptyMatch], Filters = [],
         BackendRefs = [backendRef ''app'' 80 80, backendRef ''app-canary'' 80 20],
         Timeouts = None\<rparr>]\<rparr>"


text \<open>The example rollout with a maximal latency of 500 ms.\<close>

definition withMaxLatency :: "int32 \<Rightarrow> CanaryDeployment \<Rightarrow> CanaryDeployment" where
  "withMaxLatency v c = c\<lparr>Spec := (Spec c)\<lparr>Analysis := (Analysis (Spec c))\<lparr>MaxLatency := v\<rparr>\<rparr>\<rparr>"

definition latencyCanary :: CanaryDeployment where
  "latencyCanary = withMaxLatency 500 (exampleCanary ''Progressing'')"

section \<open>Properties\<close>

subsection \<open>The API client and words\<close>

lemma nextFault_eq:
  "nextFault w = ((case faults w of [] \<Rightarrow> None | f # fs \<Rightarrow> f), w\<lparr>faults := tl (faults w)\<rparr>)"
  by (cases "faults w") (simp_all add: nextFault_def)

lemma find_replace:
  "find P xs = Some old \<Longrightarrow> P r \<Longrightarrow> find P (map (\<lambda>x. if P x then r else x) xs) = Some r"
  by (induction xs) auto

lemma find_holds: "find P xs = Some x \<Longrightarrow> P x"
  by (induction xs) (auto split: if_splits)

lemma filter_replace:
  "filter (\<lambda>x. \<not> P x) (map (\<lambda>x. if P x then r else x) xs) = filter (\<lambda>x. \<not> P x) xs"
  if "P r"
  using that by (induction xs) auto







subsection \<open>Route Mutator\<close>

lemma updateHTTPRouteBackends_key:
  "rt_Name (snd (updateHTTPRouteBackends rt c cw)) = rt_Name rt"
  "rt_Namespace (snd (updateHTTPRouteBackends rt c cw)) = rt_Namespace rt"
  "fst (updateHTTPRouteBackends rt c cw) = None"
  by (simp_all add: updateHTTPRouteBackends_def Let_def)

lemma UpdateTrafficSplit_ok:
  assumes "UpdateTrafficSplit w c cw = (None, w')"
  shows "\<exists>old. find (isRoute (httpRouteNamespace c) (gw_HTTPRoute (Gateway (Spec c)))) (routes w) = Some old
           \<and> w' = w\<lparr>faults := tl (tl (faults w)),
                     routes := map (\<lambda>x. if isRoute (httpRouteNamespace c) (gw_HTTPRoute (Gateway (Spec c))) x
                                         then snd (updateHTTPRouteBackends old c cw) else x) (routes w)\<rparr>"
proof -
  let ?ns = "httpRouteNamespace c" and ?nm = "gw_HTTPRoute (Gateway (Spec c))"
  from assms obtain old w1 where g: "client_Get_HTTPRoute w ?ns ?nm = (Inr old, w1)"
    by (auto simp: UpdateTrafficSplit_def split: prod.splits sum.splits option.splits)
  then have f: "find (isRoute ?ns ?nm) (routes w) = Some old" and w1: "w1 = w\<lparr>faults := tl (faults w)\<rparr>"
    by (auto simp: client_Get_HTTPRoute_def nextFault_eq split: option.splits list.splits)
  have k: "isRoute ?ns ?nm old" using f by (rule find_holds)
  obtain r' where r': "updateHTTPRouteBackends old c cw = (None, r')"
    by (cases "updateHTTPRouteBackends old c cw") (use updateHTTPRouteBackends_key(3)[of old c cw] in auto)
  from assms g r' have u: "client_Update_HTTPRoute w1 r' = (None, w')"
    by (auto simp: UpdateTrafficSplit_def split: prod.splits option.splits)
  have kr: "rt_Namespace r' = ?ns" "rt_Name r' = ?nm"
    using k r' updateHTTPRouteBackends_key(1,2)[of old c cw] by (auto simp: isRoute_def)
  from u kr w1 have "w' = w\<lparr>faults := tl (tl (faults w)),
        routes := map (\<lambda>x. if isRoute ?ns ?nm x then r' else x) (routes w)\<rparr>"
    by (auto simp: client_Update_HTTPRoute_def nextFault_eq split: option.splits list.splits)
  with f r' show ?thesis by simp
qed

lemma UpdateTrafficSplit_err:
  assumes "UpdateTrafficSplit w c cw = (Some e, w')"
  shows "\<exists>fs. w' = w\<lparr>faults := fs\<rparr>"
  using assms
  by (auto simp: UpdateTrafficSplit_def client_Get_HTTPRoute_def client_Update_HTTPRoute_def nextFault_eq
          updateHTTPRouteBackends_def Let_def
          split: prod.splits sum.splits option.splits list.splits if_splits)

lemma UpdateTrafficSplit_stored:
  assumes "UpdateTrafficSplit w c cw = (None, w')"
  shows "\<exists>old. find (isRoute (httpRouteNamespace c) (gw_HTTPRoute (Gateway (Spec c)))) (routes w) = Some old
           \<and> find (isRoute (httpRouteNamespace c) (gw_HTTPRoute (Gateway (Spec c)))) (routes w')
               = Some (snd (updateHTTPRouteBackends old c cw))"
proof -
  let ?P = "isRoute (httpRouteNamespace c) (gw_HTTPRoute (Gateway (Spec c)))"
  from UpdateTrafficSplit_ok [OF assms] obtain old where
    f: "find ?P (routes w) = Some old" and
    w': "w' = w\<lparr>faults := tl (tl (faults w)),
              routes := map (\<lambda>x. if ?P x then snd (updateHTTPRouteBackends old c cw) else x) (routes w)\<rparr>"
    by blast
  have "?P old" using f by (rule find_holds)
  then have "?P (snd (updateHTTPRouteBackends old c cw))"
    by (simp add: isRoute_def updateHTTPRouteBackends_key)
  with f have "find ?P (map (\<lambda>x. if ?P x then snd (updateHTTPRouteBackends old c cw) else x) (routes w))
                 = Some (snd (updateHTTPRouteBackends old c cw))"
    by (rule find_replace)
  with f w' show ?thesis by simp
qed





lemma updateHTTPRouteBackends_frame:
  "\<exists>refs. snd (updateHTTPRouteBackends rt c cw) =
      rt\<lparr>Rules := map (\<lambda>rule. rule\<lparr>Matches := (if Matches rule = [] then [emptyMatch]
                                                 else Matches rule),
                                     BackendRefs := refs\<rparr>) (Rules rt)\<rparr>"
proof -
  let ?s = "backendRef (sr_Name (Service (Spec c))) (sr_Port (Service (Spec c))) (ucast (100 - cw))"
  let ?c = "backendRef (sr_Name (Service (Spec c)) @ ''-canary'') (sr_Port (Service (Spec c))) (ucast cw)"
  let ?refs = "if cw = 0 then [?s] else if cw = 100 then [?c] else [?s, ?c]"
  have "snd (updateHTTPRouteBackends rt c cw) =
      rt\<lparr>Rules := map (\<lambda>rule. rule\<lparr>Matches := (if Matches rule = [] then [emptyMatch]
                                                 else Matches rule),
                                     BackendRefs := ?refs\<rparr>) (Rules rt)\<rparr>"
    by (simp add: updateHTTPRouteBackends_def Let_def)
  then show ?thesis by blast
qed

text \<open>
  C7, amended. A successful \<open>UpdateTrafficSplit\<close> changes, in the referenced route, the
  \<open>backendRefs\<close> of every rule and the match list of the rules that have none, which
  becomes the list of one empty match; a non-empty match list, every other field of a rule
  and every other field of the route are as before, and so are the other routes and the
  rollouts of the store.
\<close>

theorem UpdateTrafficSplit_frame:
  assumes "UpdateTrafficSplit w canary cw = (None, w')"
  shows "\<exists>old refs.
           find (isRoute (httpRouteNamespace canary) (gw_HTTPRoute (Gateway (Spec canary)))) (routes w)
             = Some old
           \<and> find (isRoute (httpRouteNamespace canary) (gw_HTTPRoute (Gateway (Spec canary)))) (routes w')
               = Some (old\<lparr>Rules :=
                    map (\<lambda>rule. rule\<lparr>Matches := (if Matches rule = [] then [emptyMatch]
                                                     else Matches rule),
                                         BackendRefs := refs\<rparr>) (Rules old)\<rparr>)
           \<and> filter (\<lambda>x. \<not> isRoute (httpRouteNamespace canary) (gw_HTTPRoute (Gateway (Spec canary))) x)
                 (routes w')
               = filter (\<lambda>x. \<not> isRoute (httpRouteNamespace canary) (gw_HTTPRoute (Gateway (Spec canary))) x)
                   (routes w)
           \<and> canaries w' = canaries w"
proof -
  let ?P = "isRoute (httpRouteNamespace canary) (gw_HTTPRoute (Gateway (Spec canary)))"
  from UpdateTrafficSplit_ok [OF assms] obtain old where
    f: "find ?P (routes w) = Some old" and
    w': "w' = w\<lparr>faults := tl (tl (faults w)),
              routes := map (\<lambda>x. if ?P x then snd (updateHTTPRouteBackends old canary cw) else x)
                          (routes w)\<rparr>"
    by blast
  from UpdateTrafficSplit_stored [OF assms] f have
    st: "find ?P (routes w') = Some (snd (updateHTTPRouteBackends old canary cw))"
    by auto
  have "?P old" using f by (rule find_holds)
  then have "?P (snd (updateHTTPRouteBackends old canary cw))"
    by (simp add: isRoute_def updateHTTPRouteBackends_key)
  then have others: "filter (\<lambda>x. \<not> ?P x) (routes w') = filter (\<lambda>x. \<not> ?P x) (routes w)"
    unfolding w' by (simp add: filter_replace)
  have can: "canaries w' = canaries w" unfolding w' by simp
  from updateHTTPRouteBackends_frame [of old canary cw] obtain refs where
    "snd (updateHTTPRouteBackends old canary cw) =
       old\<lparr>Rules := map (\<lambda>rule. rule\<lparr>Matches := (if Matches rule = [] then [emptyMatch]
                                                   else Matches rule),
                                       BackendRefs := refs\<rparr>) (Rules old)\<rparr>"
    by blast
  with f st others can show ?thesis by auto
qed

theorem UpdateTrafficSplit_frame_witness:
  "UpdateTrafficSplit (exampleWorld unreachable (exampleCanary ''Progressing''))
       (exampleCanary ''Progressing'') 0
     = (None, (exampleWorld unreachable (exampleCanary ''Progressing''))
          \<lparr>routes := [exampleRoute\<lparr>Rules :=
             [\<lparr>Matches = [emptyMatch], Filters = [],
               BackendRefs = [backendRef ''app'' 80 100], Timeouts = None\<rparr>]\<rparr>]\<rparr>)
   \<and> (\<exists>old refs.
         find (isRoute ''demo'' ''app-route'')
             (routes (exampleWorld unreachable (exampleCanary ''Progressing''))) = Some old
         \<and> find (isRoute ''demo'' ''app-route'')
             (routes ((exampleWorld unreachable (exampleCanary ''Progressing''))
                \<lparr>routes := [exampleRoute\<lparr>Rules :=
                   [\<lparr>Matches = [emptyMatch], Filters = [],
                     BackendRefs = [backendRef ''app'' 80 100], Timeouts = None\<rparr>]\<rparr>]\<rparr>))
             = Some (old\<lparr>Rules :=
                  map (\<lambda>rule. rule\<lparr>Matches := (if Matches rule = [] then [emptyMatch]
                                                   else Matches rule),
                                       BackendRefs := refs\<rparr>) (Rules old)\<rparr>))"
proof -
  have run: "UpdateTrafficSplit (exampleWorld unreachable (exampleCanary ''Progressing''))
       (exampleCanary ''Progressing'') 0
     = (None, (exampleWorld unreachable (exampleCanary ''Progressing''))
          \<lparr>routes := [exampleRoute\<lparr>Rules :=
             [\<lparr>Matches = [emptyMatch], Filters = [],
               BackendRefs = [backendRef ''app'' 80 100], Timeouts = None\<rparr>]\<rparr>]\<rparr>)"
    by (simp add: UpdateTrafficSplit_def client_Get_HTTPRoute_def client_Update_HTTPRoute_def
          nextFault_def updateHTTPRouteBackends_def httpRouteNamespace_def isRoute_def
          exampleWorld_def exampleCanary_def exampleSpec_def exampleRoute_def Let_def)
  have ns: "httpRouteNamespace (exampleCanary ''Progressing'') = ''demo''"
    and nm: "gw_HTTPRoute (Gateway (Spec (exampleCanary ''Progressing''))) = ''app-route''"
    by (simp_all add: httpRouteNamespace_def exampleCanary_def exampleSpec_def)
  from UpdateTrafficSplit_frame [OF run] run show ?thesis
    unfolding ns nm by blast
qed

theorem UpdateTrafficSplit_frame_counterexample:
  "fst (UpdateTrafficSplit (exampleWorld unreachable (exampleCanary ''Progressing''))
          (exampleCanary ''Progressing'') 20) = None
   \<and> map Matches (Rules (hd (routes (exampleWorld unreachable (exampleCanary ''Progressing'')))))
       = [[]]
   \<and> map Matches (Rules (hd (routes (snd
         (UpdateTrafficSplit (exampleWorld unreachable (exampleCanary ''Progressing''))
            (exampleCanary ''Progressing'') 20)))))
       = [[emptyMatch]]"
  by (simp add: UpdateTrafficSplit_def client_Get_HTTPRoute_def client_Update_HTTPRoute_def
        nextFault_def updateHTTPRouteBackends_def httpRouteNamespace_def isRoute_def
        exampleWorld_def exampleCanary_def exampleSpec_def exampleRoute_def Let_def)

subsection \<open>Analyzer\<close>

lemma GetMetric_world: "snd (GetMetric p w q) = w\<lparr>queries := queries w @ [q]\<rparr>"
  by (simp add: GetMetric_def Let_def
        split: http_reply.splits http_body.splits list.splits json_value.splits sum.splits)

lemma GetMetric_world': "GetMetric p w q = (out, w1) \<Longrightarrow> w1 = w\<lparr>queries := queries w @ [q]\<rparr>"
  using GetMetric_world [of p w q] by simp

text \<open>
  The errors of the backend as \<open>GetMetric\<close> returns them: a backend that cannot be
  reached, a status code other than 200, a status other than "success", an empty result.
\<close>

lemma GetMetric_backend_errors:
  "prometheus w (length (queries w)) (baseURL p) q = DoError e \<Longrightarrow>
     fst (GetMetric p w q) = Return (Inl e)"
  "prometheus w (length (queries w)) (baseURL p) q = Reply code body \<Longrightarrow> code \<noteq> 200 \<Longrightarrow>
     fst (GetMetric p w q)
       = Return (Inl (Failure (''prometheus query failed with status '' @ showInt (int code))))"
  "prometheus w (length (queries w)) (baseURL p) q = Reply 200 (Decoded resp) \<Longrightarrow>
     pr_Status resp \<noteq> ''success'' \<Longrightarrow>
     fst (GetMetric p w q) = Return (Inl (Failure (''prometheus query failed: '' @ pr_Status resp)))"
  "prometheus w (length (queries w)) (baseURL p) q = Reply 200 (Decoded resp) \<Longrightarrow>
     pr_Status resp = ''success'' \<Longrightarrow> pr_Result resp = [] \<Longrightarrow>
     fst (GetMetric p w q) = Return (Inl (Failure ''no data returned from prometheus query''))"
  by (simp_all add: GetMetric_def Let_def)

lemma replaceQueryPlaceholders_queries [simp]:
  "replaceQueryPlaceholders (w\<lparr>queries := qs\<rparr>) q c = replaceQueryPlaceholders w q c"
  by (simp add: replaceQueryPlaceholders_def)

lemma evaluateMetric_cases:
  "evaluateMetric p w c m =
     (case fst (GetMetric p w (replaceQueryPlaceholders w (Query m) c)) of
        Panic \<Rightarrow> Panic
      | Return (Inl err) \<Rightarrow> Return (Inl err)
      | Return (Inr v) \<Rightarrow>
          Return (Inr \<lparr>mr_Name = am_Name m, mr_Value = v, mr_Threshold = Threshold m,
                       mr_Passed = compareValues v (Threshold m) (Operator m)\<rparr>),
      w\<lparr>queries := queries w @ [replaceQueryPlaceholders w (Query m) c]\<rparr>)"
proof -
  obtain out w1 where g: "GetMetric p w (replaceQueryPlaceholders w (Query m) c) = (out, w1)"
    by (cases "GetMetric p w (replaceQueryPlaceholders w (Query m) c)")
  from GetMetric_world' [OF g] g show ?thesis
    by (simp add: evaluateMetric_def Let_def split: outcome.splits sum.splits)
qed

lemma RunAnalysis_metrics_ok:
  "RunAnalysis_metrics p c ms res w = (Return None, res', w') \<Longrightarrow>
     \<exists>vs. length vs = length ms
        \<and> res' = res\<lparr>ar_MetricResults := ar_MetricResults res @
                      map2 (\<lambda>m v. \<lparr>mr_Name = am_Name m, mr_Value = v, mr_Threshold = Threshold m,
                                    mr_Passed = compareValues v (Threshold m) (Operator m)\<rparr>) ms vs,
                    ar_Passed := (ar_Passed res \<and>
                      (\<forall>(m, v) \<in> set (zip ms vs). compareValues v (Threshold m) (Operator m)))\<rparr>
        \<and> w' = w\<lparr>queries := queries w @ map (\<lambda>m. replaceQueryPlaceholders w (Query m) c) ms\<rparr>"
proof (induction ms arbitrary: res w)
  case Nil
  then show ?case by simp
next
  case (Cons m ms)
  let ?q = "replaceQueryPlaceholders w (Query m) c"
  let ?w1 = "w\<lparr>queries := queries w @ [?q]\<rparr>"
  from Cons.prems obtain v where
    v: "fst (GetMetric p w ?q) = Return (Inr v)"
    by (auto simp: evaluateMetric_cases split: outcome.splits sum.splits)
  let ?mr = "\<lparr>mr_Name = am_Name m, mr_Value = v, mr_Threshold = Threshold m,
               mr_Passed = compareValues v (Threshold m) (Operator m)\<rparr>"
  let ?res2 = "res\<lparr>ar_MetricResults := ar_MetricResults res @ [?mr],
                   ar_Passed := (ar_Passed res \<and> compareValues v (Threshold m) (Operator m))\<rparr>"
  from Cons.prems v have rec: "RunAnalysis_metrics p c ms ?res2 ?w1 = (Return None, res', w')"
    by (auto simp: evaluateMetric_cases Let_def split: if_splits)
  from Cons.IH [OF rec] obtain vs where
    l: "length vs = length ms" and
    r: "res' = ?res2\<lparr>ar_MetricResults := ar_MetricResults ?res2 @
                      map2 (\<lambda>m v. \<lparr>mr_Name = am_Name m, mr_Value = v, mr_Threshold = Threshold m,
                                    mr_Passed = compareValues v (Threshold m) (Operator m)\<rparr>) ms vs,
                    ar_Passed := (ar_Passed ?res2 \<and>
                      (\<forall>(m, v) \<in> set (zip ms vs). compareValues v (Threshold m) (Operator m)))\<rparr>" and
    ww: "w' = ?w1\<lparr>queries := queries ?w1 @ map (\<lambda>m. replaceQueryPlaceholders ?w1 (Query m) c) ms\<rparr>"
    by blast
  show ?case
    apply (rule exI [of _ "v # vs"])
    using l r ww apply simp
    done
qed

lemma RunAnalysis_metrics_append:
  "RunAnalysis_metrics p c (pre @ post) res w =
     (case RunAnalysis_metrics p c pre res w of
        (Return None, res1, w1) \<Rightarrow> RunAnalysis_metrics p c post res1 w1
      | (Return (Some e), res1, w1) \<Rightarrow> (Return (Some e), res1, w1)
      | (Panic, res1, w1) \<Rightarrow> (Panic, res1, w1))"
  by (induction pre arbitrary: res w)
     (auto simp: Let_def split: prod.splits outcome.splits sum.splits option.splits)

lemma RunAnalysis_metrics_answered:
  "answered p w (map (\<lambda>m. replaceQueryPlaceholders w (Query m) c) ms) \<Longrightarrow>
     \<exists>res' w'. RunAnalysis_metrics p c ms res w = (Return None, res', w')"
proof (induction ms arbitrary: res w)
  case Nil
  then show ?case by simp
next
  case (Cons m ms)
  let ?q = "replaceQueryPlaceholders w (Query m) c"
  let ?w1 = "w\<lparr>queries := queries w @ [?q]\<rparr>"
  from Cons.prems obtain v where
    v: "GetMetric p w ?q = (Return (Inr v), ?w1)" and
    a: "answered p ?w1 (map (\<lambda>m. replaceQueryPlaceholders w (Query m) c) ms)"
    by (auto split: prod.splits outcome.splits sum.splits dest: GetMetric_world')
  from a have "answered p ?w1 (map (\<lambda>m. replaceQueryPlaceholders ?w1 (Query m) c) ms)"
    by simp
  from Cons.IH [OF this] v show ?case
    by (simp add: evaluateMetric_cases Let_def)
qed

lemma RunAnalysis_metrics_not_passed:
  "RunAnalysis_metrics p c ms res w = (out, res', w') \<Longrightarrow> \<not> ar_Passed res \<Longrightarrow> \<not> ar_Passed res'"
  by (induction ms arbitrary: res w)
     (auto simp: evaluateMetric_cases Let_def split: outcome.splits sum.splits if_splits)

lemma RunAnalysis_metrics_error:
  "RunAnalysis_metrics p c ms res w = (Return (Some e), res', w') \<Longrightarrow>
     \<not> ar_Passed res' \<and> ar_Phase res' = ''Failed''"
  by (induction ms arbitrary: res w)
     (auto simp: evaluateMetric_cases Let_def split: outcome.splits sum.splits if_splits)

lemma metric_names:
  "length vs = length ms \<Longrightarrow>
     map mr_Name (map2 (\<lambda>m v. \<lparr>mr_Name = am_Name m, mr_Value = v, mr_Threshold = Threshold m,
                                  mr_Passed = compareValues v (Threshold m) (Operator m)\<rparr>) ms vs)
       = map am_Name ms"
  by (induction vs ms rule: list_induct2) simp_all

lemma RunAnalysis_successRate_cases:
  "RunAnalysis_successRate p c res w = (out, res', w') \<Longrightarrow>
     (out = Return None \<and> ar_MetricResults res' = ar_MetricResults res
        \<and> ar_CompletedAt res' = ar_CompletedAt res \<and> ar_Phase res' = ar_Phase res
        \<and> (\<not> ar_Passed res \<longrightarrow> \<not> ar_Passed res')
        \<and> w' = (if f64_gt (SuccessRate (Analysis (Spec c))) (Finite 0)
                 then w\<lparr>queries := queries w @ [successRateQuery c]\<rparr> else w))
     \<or> ((\<exists>e. out = Return (Some e)) \<and> \<not> ar_Passed res' \<and> ar_Phase res' = ''Failed'')
     \<or> out = Panic"
  by (auto simp: RunAnalysis_successRate_def getSuccessRate_def Let_def
           split: if_splits prod.splits outcome.splits sum.splits dest: GetMetric_world')

lemma RunAnalysis_latency_cases:
  "RunAnalysis_latency p c res w = (out, res', w') \<Longrightarrow>
     (out = Return None \<and> ar_MetricResults res' = ar_MetricResults res
        \<and> ar_CompletedAt res' = ar_CompletedAt res \<and> ar_Phase res' = ar_Phase res
        \<and> (\<not> ar_Passed res \<longrightarrow> \<not> ar_Passed res')
        \<and> w' = (if 0 < sint (MaxLatency (Analysis (Spec c)))
                 then w\<lparr>queries := queries w @ [latencyQuery c]\<rparr> else w))
     \<or> ((\<exists>e. out = Return (Some e)) \<and> \<not> ar_Passed res' \<and> ar_Phase res' = ''Failed'')
     \<or> out = Panic"
  by (auto simp: RunAnalysis_latency_def getAverageLatency_def Let_def
           split: if_splits prod.splits outcome.splits sum.splits dest: GetMetric_world')

lemma compareValues_unknown:
  "operator \<notin> {''>'', ''>='', ''<'', ''<='', ''=='', ''!=''} \<Longrightarrow> compareValues v t operator = False"
  by (simp add: compareValues_def)

lemma RunAnalysis_metrics_unknown:
  "metric \<in> set ms \<Longrightarrow> Operator metric \<notin> {''>'', ''>='', ''<'', ''<='', ''=='', ''!=''} \<Longrightarrow>
   RunAnalysis_metrics p c ms res w = (Return e, res', w') \<Longrightarrow> \<not> ar_Passed res'"
proof (induction ms arbitrary: res w)
  case Nil
  then show ?case by simp
next
  case (Cons m ms)
  show ?case
  proof (cases "fst (GetMetric p w (replaceQueryPlaceholders w (Query m) c))")
    case Panic
    with Cons.prems(3) show ?thesis by (simp add: evaluateMetric_cases)
  next
    case (Return x)
    show ?thesis
    proof (cases x)
      case (Inl err)
      with Return Cons.prems(3) show ?thesis by (auto simp: evaluateMetric_cases)
    next
      case (Inr v)
      show ?thesis
      proof (cases "metric = m")
        case True
        with Cons.prems(2) have "compareValues v (Threshold m) (Operator m) = False"
          by (intro compareValues_unknown) simp
        with Return Inr Cons.prems(3) show ?thesis
          by (auto simp: evaluateMetric_cases Let_def dest: RunAnalysis_metrics_not_passed)
      next
        case False
        with Cons.prems(1) have "metric \<in> set ms" by simp
        from Cons.IH [OF this Cons.prems(2)] Return Inr Cons.prems(3) show ?thesis
          by (auto simp: evaluateMetric_cases Let_def split: if_splits)
      qed
    qed
  qed
qed

lemma RunAnalysis_metrics_recorded:
  assumes "RunAnalysis_metrics p c ms res w = (Return None, res', w')" and "metric \<in> set ms"
  shows "\<exists>mr \<in> set (ar_MetricResults res').
           mr_Name mr = am_Name metric \<and> mr_Threshold mr = Threshold metric
           \<and> mr_Passed mr = compareValues (mr_Value mr) (Threshold metric) (Operator metric)"
proof -
  let ?mk = "\<lambda>m v. \<lparr>mr_Name = am_Name m, mr_Value = v, mr_Threshold = Threshold m,
                     mr_Passed = compareValues v (Threshold m) (Operator m)\<rparr>"
  from RunAnalysis_metrics_ok [OF assms(1)] obtain vs where
    l: "length vs = length ms" and
    r: "ar_MetricResults res' = ar_MetricResults res @ map2 ?mk ms vs"
    by auto
  from assms(2) obtain i where i: "i < length ms" "ms ! i = metric"
    by (auto simp: in_set_conv_nth)
  with l have "map2 ?mk ms vs ! i = ?mk metric (vs ! i)" by simp
  moreover from i l have "map2 ?mk ms vs ! i \<in> set (map2 ?mk ms vs)"
    by (intro nth_mem) simp
  ultimately have "?mk metric (vs ! i) \<in> set (ar_MetricResults res')"
    using r by simp
  then show ?thesis
    by (intro bexI [of _ "?mk metric (vs ! i)"]) simp_all
qed

text \<open>
  C10. For a named metric whose operator is none of \<open>>\<close>, \<open>>=\<close>, \<open><\<close>, \<open><=\<close>, \<open>==\<close>,
  \<open>!=\<close>, the comparison is false for every measured value, \<open>evaluateMetric\<close> records the
  metric as not passed, and every verdict that \<open>RunAnalysis\<close> returns for a rollout that
  configures the metric is a failure (not passed, phase Failed); when the run returns without
  error, the results hold the metric as not passed.
\<close>

theorem unknown_operator_fails_closed:
  assumes "Operator metric \<notin> {''>'', ''>='', ''<'', ''<='', ''=='', ''!=''}"
  shows "compareValues v (Threshold metric) (Operator metric) = False
         \<and> (evaluateMetric p w canary metric = (Return (Inr mr), w1) \<longrightarrow>
              mr_Name mr = am_Name metric \<and> \<not> mr_Passed mr)
         \<and> (metric \<in> set (Metrics (Analysis (Spec canary)))
              \<and> RunAnalysis p w canary = (Return (result, err), w') \<longrightarrow>
              \<not> ar_Passed result \<and> ar_Phase result = ''Failed''
              \<and> (err = None \<longrightarrow>
                   (\<exists>r \<in> set (ar_MetricResults result).
                      mr_Name r = am_Name metric \<and> mr_Threshold r = Threshold metric
                      \<and> \<not> mr_Passed r)))"
proof -
  have cmp: "compareValues v (Threshold metric) (Operator metric) = False" for v
    using assms by (rule compareValues_unknown)
  have ev: "mr_Name mr = am_Name metric \<and> \<not> mr_Passed mr"
    if "evaluateMetric p w canary metric = (Return (Inr mr), w1)"
  proof -
    from that obtain x where "mr = \<lparr>mr_Name = am_Name metric, mr_Value = x,
                      mr_Threshold = Threshold metric,
                      mr_Passed = compareValues x (Threshold metric) (Operator metric)\<rparr>"
      by (auto simp: evaluateMetric_cases split: outcome.splits sum.splits)
    with cmp [of x] show ?thesis by simp
  qed
  have all: "(\<not> ar_Passed result \<and> ar_Phase result = ''Failed'')
        \<and> (err = None \<longrightarrow> (\<exists>r \<in> set (ar_MetricResults result).
              mr_Name r = am_Name metric \<and> mr_Threshold r = Threshold metric \<and> \<not> mr_Passed r))"
    if a: "metric \<in> set (Metrics (Analysis (Spec canary)))"
      and run: "RunAnalysis p w canary = (Return (result, err), w')"
  proof -
    let ?res0 = "\<lparr>ar_Phase = ''Running'', ar_SuccessRate = Finite 0, ar_AverageLatency = 0,
                   ar_MetricResults = [], ar_StartedAt = Some (clock w),
                   ar_CompletedAt = None, ar_Passed = True\<rparr>"
    obtain o1 res1 w1 where m: "RunAnalysis_metrics p canary (Metrics (Analysis (Spec canary))) ?res0 w
        = (o1, res1, w1)"
      by (cases "RunAnalysis_metrics p canary (Metrics (Analysis (Spec canary))) ?res0 w") auto
    obtain o2 res2 w2 where s: "RunAnalysis_successRate p canary res1 w1 = (o2, res2, w2)"
      by (cases "RunAnalysis_successRate p canary res1 w1") auto
    obtain o3 res3 w3 where l: "RunAnalysis_latency p canary res2 w2 = (o3, res3, w3)"
      by (cases "RunAnalysis_latency p canary res2 w2") auto
    have np1: "\<not> ar_Passed res1" if "o1 = Return e" for e
      using RunAnalysis_metrics_unknown [OF a assms] m that by blast
    have rec1: "\<exists>r \<in> set (ar_MetricResults res1).
                    mr_Name r = am_Name metric \<and> mr_Threshold r = Threshold metric \<and> \<not> mr_Passed r"
      if "o1 = Return None"
      using RunAnalysis_metrics_recorded [of p canary _ ?res0 w res1 w1 metric] a m that cmp
      by auto
    show ?thesis
    proof (cases o1)
      case Panic
      with run m show ?thesis by (simp add: RunAnalysis_def Let_def)
    next
      case r1: (Return e1)
      show ?thesis
      proof (cases e1)
        case (Some e)
        with r1 run m RunAnalysis_metrics_error [of p canary _ ?res0 w e res1 w1]
        show ?thesis by (auto simp: RunAnalysis_def Let_def)
      next
        case None
        note n1 = np1 [OF r1] and k1 = rec1 [OF r1 [unfolded None]]
        from RunAnalysis_successRate_cases [OF s] n1 k1 have
          c2: "(o2 = Return None \<and> \<not> ar_Passed res2
                 \<and> (\<exists>r \<in> set (ar_MetricResults res2).
                      mr_Name r = am_Name metric \<and> mr_Threshold r = Threshold metric \<and> \<not> mr_Passed r))
               \<or> ((\<exists>e. o2 = Return (Some e)) \<and> \<not> ar_Passed res2 \<and> ar_Phase res2 = ''Failed'')
               \<or> o2 = Panic"
          by auto
        from c2 show ?thesis
        proof (elim disjE conjE exE bexE)
          assume "o2 = Panic"
          with r1 None run m s show ?thesis by (simp add: RunAnalysis_def Let_def)
        next
          fix e assume "o2 = Return (Some e)" "\<not> ar_Passed res2" "ar_Phase res2 = ''Failed''"
          with r1 None run m s show ?thesis by (auto simp: RunAnalysis_def Let_def)
        next
          fix r
          assume o2: "o2 = Return None" and n2: "\<not> ar_Passed res2"
            and k2: "r \<in> set (ar_MetricResults res2)" "mr_Name r = am_Name metric"
               "mr_Threshold r = Threshold metric" "\<not> mr_Passed r"
          from RunAnalysis_latency_cases [OF l] n2 k2 have
            c3: "(o3 = Return None \<and> \<not> ar_Passed res3 \<and> r \<in> set (ar_MetricResults res3))
               \<or> ((\<exists>e. o3 = Return (Some e)) \<and> \<not> ar_Passed res3 \<and> ar_Phase res3 = ''Failed'')
               \<or> o3 = Panic"
            by auto
          from c3 show ?thesis
          proof (elim disjE conjE exE)
            assume "o3 = Panic"
            with r1 None o2 run m s l show ?thesis by (simp add: RunAnalysis_def Let_def)
          next
            fix e assume "o3 = Return (Some e)" "\<not> ar_Passed res3" "ar_Phase res3 = ''Failed''"
            with r1 None o2 run m s l show ?thesis by (auto simp: RunAnalysis_def Let_def)
          next
            assume "o3 = Return None" "\<not> ar_Passed res3" "r \<in> set (ar_MetricResults res3)"
            with r1 None o2 run m s l k2 show ?thesis by (auto simp: RunAnalysis_def Let_def)
          qed
        qed
      qed
    qed
  qed
  from cmp ev all show ?thesis by blast
qed

lemmas example_defs = exampleWorld_def exampleCanary_def exampleSpec_def exampleRoute_def
  withMetrics_def answers08_def unreachable_def exampleReconciler_def

lemmas analyzer_defs = RunAnalysis_def RunAnalysis_successRate_def RunAnalysis_latency_def
  getSuccessRate_def getAverageLatency_def evaluateMetric_def GetMetric_def compareValues_def
  replaceQueryPlaceholders_def ReplaceAll.simps Let_def
  f64_gt_def f64_ge_def f64_le_def f64_ne_def

theorem unknown_operator_fails_closed_witness:
  "Operator oddMetric \<notin> {''>'', ''>='', ''<'', ''<='', ''=='', ''!=''}
   \<and> evaluateMetric \<lparr>baseURL = ''http://prometheus:9090''\<rparr>
        (exampleWorld answers08 (withMetrics [oddMetric] (exampleCanary ''Progressing'')))
        (withMetrics [oddMetric] (exampleCanary ''Progressing'')) oddMetric
      = (Return (Inr \<lparr>mr_Name = ''errors'', mr_Value = Finite (8 / 10),
                       mr_Threshold = Finite 1, mr_Passed = False\<rparr>),
         (exampleWorld answers08 (withMetrics [oddMetric] (exampleCanary ''Progressing'')))
           \<lparr>queries := [''errors'']\<rparr>)
   \<and> oddMetric \<in> set (Metrics (Analysis (Spec (withMetrics [oddMetric] (exampleCanary ''Progressing'')))))
   \<and> RunAnalysis \<lparr>baseURL = ''http://prometheus:9090''\<rparr>
        (exampleWorld answers08 (withMetrics [oddMetric] (exampleCanary ''Progressing'')))
        (withMetrics [oddMetric] (exampleCanary ''Progressing''))
      = (Return (\<lparr>ar_Phase = ''Failed'', ar_SuccessRate = Finite (8 / 10), ar_AverageLatency = 0,
           ar_MetricResults = [\<lparr>mr_Name = ''errors'', mr_Value = Finite (8 / 10),
                                 mr_Threshold = Finite 1, mr_Passed = False\<rparr>],
           ar_StartedAt = Some 7, ar_CompletedAt = Some 7, ar_Passed = False\<rparr>, None),
         (exampleWorld answers08 (withMetrics [oddMetric] (exampleCanary ''Progressing'')))
           \<lparr>queries := [''errors'',
               successRateQuery (withMetrics [oddMetric] (exampleCanary ''Progressing''))]\<rparr>)
   \<and> compareValues (Finite (8 / 10)) (Threshold oddMetric) (Operator oddMetric) = False
   \<and> (\<exists>r \<in> set [\<lparr>mr_Name = ''errors'', mr_Value = Finite (8 / 10),
                     mr_Threshold = Finite 1, mr_Passed = False\<rparr>].
         mr_Name r = am_Name oddMetric \<and> \<not> mr_Passed r)"
proof -
  let ?p = "\<lparr>baseURL = ''http://prometheus:9090''\<rparr>"
  let ?c = "withMetrics [oddMetric] (exampleCanary ''Progressing'')"
  let ?w = "exampleWorld answers08 ?c"
  let ?mr = "\<lparr>mr_Name = ''errors'', mr_Value = Finite (8 / 10),
              mr_Threshold = Finite 1, mr_Passed = False\<rparr>"
  let ?result = "\<lparr>ar_Phase = ''Failed'', ar_SuccessRate = Finite (8 / 10),
           ar_AverageLatency = 0, ar_MetricResults = [?mr],
           ar_StartedAt = Some 7, ar_CompletedAt = Some 7, ar_Passed = False\<rparr>"
  have op: "Operator oddMetric \<notin> {''>'', ''>='', ''<'', ''<='', ''=='', ''!=''}"
    by (simp add: oddMetric_def)
  have ev: "evaluateMetric ?p ?w ?c oddMetric = (Return (Inr ?mr), ?w\<lparr>queries := [''errors'']\<rparr>)"
    by (simp add: analyzer_defs example_defs oddMetric_def)
  have mem: "oddMetric \<in> set (Metrics (Analysis (Spec ?c)))"
    by (simp add: withMetrics_def)
  have run: "RunAnalysis ?p ?w ?c
      = (Return (?result, None), ?w\<lparr>queries := [''errors'', successRateQuery ?c]\<rparr>)"
    by (simp add: analyzer_defs example_defs oddMetric_def)
  from unknown_operator_fails_closed [OF op,
      where v = "Finite (8 / 10)" and p = ?p and w = ?w and canary = ?c and err = None
        and mr = ?mr and ?w1.0 = "?w\<lparr>queries := [''errors'']\<rparr>"
        and result = ?result
        and w' = "?w\<lparr>queries := [''errors'', successRateQuery ?c]\<rparr>"]
    ev mem run
  have "compareValues (Finite (8 / 10)) (Threshold oddMetric) (Operator oddMetric) = False"
    and "\<exists>r \<in> set [?mr]. mr_Name r = am_Name oddMetric \<and> \<not> mr_Passed r"
    by simp_all
  with op ev mem run show ?thesis by (intro conjI)
qed

text \<open>
  C9. When the queries of the named metrics before \<open>metric\<close> are answered and the
  query of \<open>metric\<close> errors, \<open>RunAnalysis\<close> returns at once with that error and a result
  that is not passed and in phase Failed: the results hold the metrics before \<open>metric\<close> and
  nothing else, the success rate and the latency are not measured, the completion time is
  not set, and no query is made after the failing one.
\<close>

theorem metric_query_error_stops_analysis:
  assumes "Metrics (Analysis (Spec canary)) = pre @ metric # post"
    and "answered p w (map (\<lambda>m. replaceQueryPlaceholders w (Query m) canary) pre)"
    and "fst (GetMetric p
               (w\<lparr>queries := queries w @ map (\<lambda>m. replaceQueryPlaceholders w (Query m) canary) pre\<rparr>)
               (replaceQueryPlaceholders w (Query metric) canary)) = Return (Inl err)"
  shows "\<exists>result w'.
           RunAnalysis p w canary =
             (Return (result, Some (Wrapped (''failed to evaluate metric '' @ am_Name metric) err)), w')
           \<and> \<not> ar_Passed result \<and> ar_Phase result = ''Failed''
           \<and> ar_CompletedAt result = None
           \<and> map mr_Name (ar_MetricResults result) = map am_Name pre
           \<and> ar_SuccessRate result = Finite 0 \<and> ar_AverageLatency result = 0
           \<and> queries w' = queries w
               @ map (\<lambda>m. replaceQueryPlaceholders w (Query m) canary) (pre @ [metric])"
proof -
  let ?q = "\<lambda>m. replaceQueryPlaceholders w (Query m) canary"
  let ?res0 = "\<lparr>ar_Phase = ''Running'', ar_SuccessRate = Finite 0, ar_AverageLatency = 0,
                 ar_MetricResults = [], ar_StartedAt = Some (clock w),
                 ar_CompletedAt = None, ar_Passed = True\<rparr>"
  let ?mk = "\<lambda>m v. \<lparr>mr_Name = am_Name m, mr_Value = v, mr_Threshold = Threshold m,
                     mr_Passed = compareValues v (Threshold m) (Operator m)\<rparr>"
  from RunAnalysis_metrics_answered [OF assms(2)] obtain res1 w1 where
    m1: "RunAnalysis_metrics p canary pre ?res0 w = (Return None, res1, w1)"
    by blast
  from RunAnalysis_metrics_ok [OF m1] obtain vs where
    l: "length vs = length pre" and
    r1: "res1 = ?res0\<lparr>ar_MetricResults := ar_MetricResults ?res0 @ map2 ?mk pre vs,
                      ar_Passed := (ar_Passed ?res0 \<and>
                        (\<forall>(m, v) \<in> set (zip pre vs). compareValues v (Threshold m) (Operator m)))\<rparr>" and
    w1: "w1 = w\<lparr>queries := queries w @ map ?q pre\<rparr>"
    by blast
  have ev: "evaluateMetric p w1 canary metric
              = (Return (Inl err), w1\<lparr>queries := queries w1 @ [?q metric]\<rparr>)"
    using assms(3) by (simp add: evaluateMetric_cases w1)
  have "RunAnalysis_metrics p canary (pre @ metric # post) ?res0 w
          = (Return (Some (Wrapped (''failed to evaluate metric '' @ am_Name metric) err)),
             res1\<lparr>ar_Phase := ''Failed'', ar_Passed := False\<rparr>,
             w1\<lparr>queries := queries w1 @ [?q metric]\<rparr>)"
    by (simp add: RunAnalysis_metrics_append m1 ev)
  then have run: "RunAnalysis p w canary
          = (Return (res1\<lparr>ar_Phase := ''Failed'', ar_Passed := False\<rparr>,
                     Some (Wrapped (''failed to evaluate metric '' @ am_Name metric) err)),
             w1\<lparr>queries := queries w1 @ [?q metric]\<rparr>)"
    by (simp add: RunAnalysis_def assms(1) Let_def)
  have names: "map mr_Name (ar_MetricResults (res1\<lparr>ar_Phase := ''Failed'', ar_Passed := False\<rparr>))
                 = map am_Name pre"
    using metric_names [OF l] by (simp add: r1)
  show ?thesis
    apply (rule exI [of _ "res1\<lparr>ar_Phase := ''Failed'', ar_Passed := False\<rparr>"])
    apply (rule exI [of _ "w1\<lparr>queries := queries w1 @ [?q metric]\<rparr>"])
    using run names apply (simp add: r1 w1)
    done
qed

theorem metric_query_error_stops_analysis_witness:
  "Metrics (Analysis (Spec (withMetrics twoMetrics (exampleCanary ''Progressing''))))
     = [hd twoMetrics] @ hd (tl twoMetrics) # []
   \<and> answered \<lparr>baseURL = ''http://prometheus:9090''\<rparr>
       (exampleWorld answersOnce (withMetrics twoMetrics (exampleCanary ''Progressing'')))
       [''up_app'']
   \<and> fst (GetMetric \<lparr>baseURL = ''http://prometheus:9090''\<rparr>
            ((exampleWorld answersOnce (withMetrics twoMetrics (exampleCanary ''Progressing'')))
               \<lparr>queries := [''up_app'']\<rparr>) ''errors'')
       = Return (Inl (Failure ''connection refused''))
   \<and> (\<exists>result w'.
         RunAnalysis \<lparr>baseURL = ''http://prometheus:9090''\<rparr>
           (exampleWorld answersOnce (withMetrics twoMetrics (exampleCanary ''Progressing'')))
           (withMetrics twoMetrics (exampleCanary ''Progressing''))
         = (Return (result, Some (Wrapped ''failed to evaluate metric errors''
                                    (Failure ''connection refused''))), w')
         \<and> \<not> ar_Passed result \<and> ar_Phase result = ''Failed'' \<and> ar_CompletedAt result = None
         \<and> map mr_Name (ar_MetricResults result) = [''availability'']
         \<and> queries w' = [''up_app'', ''errors''])"
proof -
  let ?p = "\<lparr>baseURL = ''http://prometheus:9090''\<rparr>"
  let ?c = "withMetrics twoMetrics (exampleCanary ''Progressing'')"
  let ?w = "exampleWorld answersOnce ?c"
  let ?q = "\<lambda>m. replaceQueryPlaceholders ?w (Query m) ?c"
  have split: "Metrics (Analysis (Spec ?c)) = [hd twoMetrics] @ hd (tl twoMetrics) # []"
    by (simp add: withMetrics_def twoMetrics_def)
  have q1: "?q (hd twoMetrics) = ''up_app''"
    by (simp add: analyzer_defs example_defs twoMetrics_def answersOnce_def)
  have q2: "?q (hd (tl twoMetrics)) = ''errors''"
    by (simp add: analyzer_defs example_defs twoMetrics_def answersOnce_def)
  have qs: "queries ?w = []"
    by (simp add: exampleWorld_def)
  have a: "answered ?p ?w [''up_app'']"
    by (simp add: analyzer_defs example_defs twoMetrics_def answersOnce_def)
  have e: "fst (GetMetric ?p (?w\<lparr>queries := [''up_app'']\<rparr>) ''errors'')
             = Return (Inl (Failure ''connection refused''))"
    by (simp add: analyzer_defs example_defs twoMetrics_def answersOnce_def)
  have m1: "map ?q [hd twoMetrics] = [''up_app'']"
    by (simp only: list.map q1)
  have a': "answered ?p ?w (map ?q [hd twoMetrics])"
    using a by (simp only: m1)
  have e': "fst (GetMetric ?p (?w\<lparr>queries := queries ?w @ map ?q [hd twoMetrics]\<rparr>)
                   (?q (hd (tl twoMetrics)))) = Return (Inl (Failure ''connection refused''))"
    using e by (simp only: m1 q2 qs append_Nil)
  have n: "am_Name (hd (tl twoMetrics)) = ''errors''" "am_Name (hd twoMetrics) = ''availability''"
    by (simp_all add: twoMetrics_def)
  have m2: "map ?q ([hd twoMetrics] @ [hd (tl twoMetrics)]) = [''up_app'', ''errors'']"
    by (simp only: list.map q1 q2 append_Cons append_Nil)
  from metric_query_error_stops_analysis [OF split a' e']
  have "\<exists>result w'.
         RunAnalysis ?p ?w ?c
         = (Return (result, Some (Wrapped ''failed to evaluate metric errors''
                                    (Failure ''connection refused''))), w')
         \<and> \<not> ar_Passed result \<and> ar_Phase result = ''Failed'' \<and> ar_CompletedAt result = None
         \<and> map mr_Name (ar_MetricResults result) = [''availability'']
         \<and> queries w' = [''up_app'', ''errors'']"
    by (simp add: n qs q1 q2) (elim exE conjE, intro exI conjI, assumption+)
  with split a e show ?thesis by blast
qed

subsection \<open>Reconciler\<close>

lemmas gateway_defs = UpdateTrafficSplit_def client_Get_HTTPRoute_def client_Update_HTTPRoute_def
  nextFault_def updateHTTPRouteBackends_def httpRouteNamespace_def isRoute_def backendRef_def

lemmas client_defs = client_Status_Update_def client_Update_Canary_def client_Get_Canary_def
  nextFault_def isCanary_def

lemmas phase_defs = CanaryDeploymentPhasePending_def CanaryDeploymentPhaseProgressing_def
  CanaryDeploymentPhasePaused_def CanaryDeploymentPhaseSucceeded_def
  CanaryDeploymentPhaseFailed_def CanaryDeploymentPhaseRollingBack_def

text \<open>
  \<open>Reconcile\<close> reads the rollout and, unless it is being deleted, calls the handler of its
  phase; the properties below are stated for the handlers.
\<close>

lemma Reconcile_dispatch:
  assumes "client_Get_Canary w ns name = (Inr canary, w1)" and "DeletionTimestamp canary = None"
  shows "Phase (Status canary) = CanaryDeploymentPhasePending \<Longrightarrow>
           Reconcile r w ns name = returned (handlePending r w1 canary)"
    and "Phase (Status canary) = CanaryDeploymentPhaseProgressing \<Longrightarrow>
           Reconcile r w ns name = returned (handleProgressing r w1 canary)"
    and "Phase (Status canary) = CanaryDeploymentPhasePaused \<Longrightarrow>
           Reconcile r w ns name = returned (handlePaused r w1 canary)"
    and "Phase (Status canary) = CanaryDeploymentPhaseRollingBack \<Longrightarrow>
           Reconcile r w ns name = returned (handleRollingBack r w1 canary)"
    and "Phase (Status canary) = CanaryDeploymentPhaseSucceeded
           \<or> Phase (Status canary) = CanaryDeploymentPhaseFailed \<Longrightarrow>
           Reconcile r w ns name = (Return (emptyResult, None), w1)"
  using assms by (auto simp: Reconcile_def phase_defs)

lemma client_Status_Update_cases:
  "client_Status_Update w c = (e, w') \<Longrightarrow>
     (e \<noteq> None \<and> w' = w\<lparr>faults := tl (faults w)\<rparr>)
     \<or> (e = None \<and> w' = w\<lparr>faults := tl (faults w),
            canaries := map (\<lambda>x. if isCanary (Namespace c) (Name c) x
                                  then x\<lparr>Status := Status c\<rparr> else x) (canaries w)\<rparr>)"
  by (auto simp: client_Status_Update_def nextFault_eq split: option.splits list.splits)

lemma client_Status_Update_world:
  "client_Status_Update w c = (e, w') \<Longrightarrow>
     routes w' = routes w \<and> queries w' = queries w \<and> clock w' = clock w
     \<and> (canaries w' = canaries w
         \<or> canaries w' = map (\<lambda>x. if isCanary (Namespace c) (Name c) x
                                    then x\<lparr>Status := Status c\<rparr> else x) (canaries w))"
  by (drule client_Status_Update_cases) auto

text \<open>
  C8. In RollingBack, when the route write with weight 0 errors, the handler changes nothing
  of the rollout, in memory or in the store, and asks to be called again after 10 s. When
  the write succeeds, the handler sets the phase Failed and the weights (0, 100) and hands
  that status to the store. So a rollout that was RollingBack and is Failed after the call,
  like any change of the stored rollouts, comes after a successful route write with weight 0.
\<close>

theorem handleRollingBack_reset_then_failed:
  "(UpdateTrafficSplit w canary 0 = (Some err, w1) \<longrightarrow>
      handleRollingBack r w canary = (Return (requeueAfter (Second * 10), None), canary, w1)
      \<and> canaries w1 = canaries w)
   \<and> (UpdateTrafficSplit w canary 0 = (None, w2) \<longrightarrow>
        (\<exists>w3. handleRollingBack r w canary =
                 (Return (emptyResult, None),
                  canary\<lparr>Status := (Status canary)
                     \<lparr>Phase := CanaryDeploymentPhaseFailed, CanaryWeight := 0,
                      StableWeight := 100, Message := ''Rollback completed'',
                      LastTransitionTime := Some (clock w2)\<rparr>\<rparr>, w3)
               \<and> (canaries w3 = canaries w
                    \<or> canaries w3 =
                        map (\<lambda>x. if isCanary (Namespace canary) (Name canary) x
                                  then x\<lparr>Status := (Status canary)
                                     \<lparr>Phase := CanaryDeploymentPhaseFailed, CanaryWeight := 0,
                                      StableWeight := 100, Message := ''Rollback completed'',
                                      LastTransitionTime := Some (clock w2)\<rparr>\<rparr>
                                  else x) (canaries w))))
   \<and> (handleRollingBack r w canary = (out, canary', w')
        \<and> Phase (Status canary) = CanaryDeploymentPhaseRollingBack
        \<and> (Phase (Status canary') = CanaryDeploymentPhaseFailed \<or> canaries w' \<noteq> canaries w) \<longrightarrow>
        (\<exists>w2. UpdateTrafficSplit w canary 0 = (None, w2))
        \<and> sint (CanaryWeight (Status canary')) = 0 \<and> sint (StableWeight (Status canary')) = 100)"
proof (intro conjI impI)
  assume e: "UpdateTrafficSplit w canary 0 = (Some err, w1)"
  then show "handleRollingBack r w canary = (Return (requeueAfter (Second * 10), None), canary, w1)"
    by (simp add: handleRollingBack_def)
  from UpdateTrafficSplit_err [OF e] show "canaries w1 = canaries w" by auto
next
  let ?c1 = "canary\<lparr>Status := (Status canary)
                     \<lparr>Phase := CanaryDeploymentPhaseFailed, CanaryWeight := 0,
                      StableWeight := 100, Message := ''Rollback completed'',
                      LastTransitionTime := Some (clock w2)\<rparr>\<rparr>"
  assume ok: "UpdateTrafficSplit w canary 0 = (None, w2)"
  obtain e w3 where u: "client_Status_Update w2 ?c1 = (e, w3)"
    by (cases "client_Status_Update w2 ?c1") auto
  from UpdateTrafficSplit_ok [OF ok] have c2: "canaries w2 = canaries w" by auto
  from ok u have "handleRollingBack r w canary = (Return (emptyResult, None), ?c1, w3)"
    by (simp add: handleRollingBack_def Let_def)
  moreover from client_Status_Update_world [OF u] c2
  have "canaries w3 = canaries w
        \<or> canaries w3 = map (\<lambda>x. if isCanary (Namespace canary) (Name canary) x
                                  then x\<lparr>Status := Status ?c1\<rparr> else x) (canaries w)"
    by auto
  ultimately show "\<exists>w3. handleRollingBack r w canary = (Return (emptyResult, None), ?c1, w3)
               \<and> (canaries w3 = canaries w
                    \<or> canaries w3 =
                        map (\<lambda>x. if isCanary (Namespace canary) (Name canary) x
                                  then x\<lparr>Status := (Status canary)
                                     \<lparr>Phase := CanaryDeploymentPhaseFailed, CanaryWeight := 0,
                                      StableWeight := 100, Message := ''Rollback completed'',
                                      LastTransitionTime := Some (clock w2)\<rparr>\<rparr>
                                  else x) (canaries w))"
    by auto
next
  assume a: "handleRollingBack r w canary = (out, canary', w')
        \<and> Phase (Status canary) = CanaryDeploymentPhaseRollingBack
        \<and> (Phase (Status canary') = CanaryDeploymentPhaseFailed \<or> canaries w' \<noteq> canaries w)"
  obtain e w2 where u: "UpdateTrafficSplit w canary 0 = (e, w2)"
    by (cases "UpdateTrafficSplit w canary 0") auto
  have ok: "e = None"
  proof (rule ccontr)
    assume "e \<noteq> None"
    then obtain err where err: "e = Some err" by auto
    with u a have "canary' = canary" "w' = w2" by (auto simp: handleRollingBack_def)
    moreover from UpdateTrafficSplit_err [OF u [unfolded err]] have "canaries w2 = canaries w"
      by auto
    ultimately show False using a by (auto simp: phase_defs)
  qed
  with u show "\<exists>w2. UpdateTrafficSplit w canary 0 = (None, w2)" by auto
  from u ok a show "sint (CanaryWeight (Status canary')) = 0"
    and "sint (StableWeight (Status canary')) = 100"
    by (auto simp: handleRollingBack_def Let_def split: prod.splits)
qed

lemmas handler_defs = handlePending_def handleProgressing_def handlePaused_def
  handleRollingBack_def analyseStep_def moveToNextStep_def runAnalysis_def
  validateCanaryDeployment_def annotation_def emptyResult_def requeueAfter_def Second_def

theorem handleRollingBack_reset_then_failed_witness:
  "UpdateTrafficSplit (failingNext (exampleWorld unreachable (exampleCanary ''RollingBack'')))
       (exampleCanary ''RollingBack'') 0
     = (Some (Wrapped ''failed to get HTTPRoute demo/app-route'' (Failure ''timeout'')),
        exampleWorld unreachable (exampleCanary ''RollingBack''))
   \<and> handleRollingBack exampleReconciler
         (failingNext (exampleWorld unreachable (exampleCanary ''RollingBack'')))
         (exampleCanary ''RollingBack'')
       = (Return (requeueAfter (Second * 10), None), exampleCanary ''RollingBack'',
          exampleWorld unreachable (exampleCanary ''RollingBack''))
   \<and> UpdateTrafficSplit (exampleWorld unreachable (exampleCanary ''RollingBack''))
         (exampleCanary ''RollingBack'') 0
       = (None, (exampleWorld unreachable (exampleCanary ''RollingBack''))
            \<lparr>routes := [exampleRoute\<lparr>Rules :=
               [\<lparr>Matches = [emptyMatch], Filters = [],
                 BackendRefs = [backendRef ''app'' 80 100], Timeouts = None\<rparr>]\<rparr>]\<rparr>)
   \<and> handleRollingBack exampleReconciler (exampleWorld unreachable (exampleCanary ''RollingBack''))
         (exampleCanary ''RollingBack'')
       = (Return (emptyResult, None),
          (exampleCanary ''RollingBack'')\<lparr>Status := (Status (exampleCanary ''RollingBack''))
             \<lparr>Phase := ''Failed'', CanaryWeight := 0, StableWeight := 100,
              Message := ''Rollback completed'', LastTransitionTime := Some 7\<rparr>\<rparr>,
          (exampleWorld unreachable (exampleCanary ''RollingBack''))
            \<lparr>routes := [exampleRoute\<lparr>Rules :=
               [\<lparr>Matches = [emptyMatch], Filters = [],
                 BackendRefs = [backendRef ''app'' 80 100], Timeouts = None\<rparr>]\<rparr>],
             canaries := [(exampleCanary ''RollingBack'')\<lparr>Status := (Status (exampleCanary ''RollingBack''))
               \<lparr>Phase := ''Failed'', CanaryWeight := 0, StableWeight := 100,
                Message := ''Rollback completed'', LastTransitionTime := Some 7\<rparr>\<rparr>]\<rparr>)
   \<and> Phase (Status (exampleCanary ''RollingBack'')) = CanaryDeploymentPhaseRollingBack
   \<and> Phase (Status ((exampleCanary ''RollingBack'')\<lparr>Status := (Status (exampleCanary ''RollingBack''))
             \<lparr>Phase := ''Failed'', CanaryWeight := 0, StableWeight := 100,
              Message := ''Rollback completed'', LastTransitionTime := Some 7\<rparr>\<rparr>))
       = CanaryDeploymentPhaseFailed"
proof -
  let ?c = "exampleCanary ''RollingBack''"
  let ?w = "exampleWorld unreachable ?c"
  let ?c' = "?c\<lparr>Status := (Status ?c)
             \<lparr>Phase := ''Failed'', CanaryWeight := 0, StableWeight := 100,
              Message := ''Rollback completed'', LastTransitionTime := Some 7\<rparr>\<rparr>"
  let ?w2 = "?w\<lparr>routes := [exampleRoute\<lparr>Rules :=
               [\<lparr>Matches = [emptyMatch], Filters = [],
                 BackendRefs = [backendRef ''app'' 80 100], Timeouts = None\<rparr>]\<rparr>]\<rparr>"
  let ?w3 = "?w\<lparr>routes := [exampleRoute\<lparr>Rules :=
               [\<lparr>Matches = [emptyMatch], Filters = [],
                 BackendRefs = [backendRef ''app'' 80 100], Timeouts = None\<rparr>]\<rparr>],
             canaries := [?c']\<rparr>"
  have bad: "UpdateTrafficSplit (failingNext ?w) ?c 0
     = (Some (Wrapped ''failed to get HTTPRoute demo/app-route'' (Failure ''timeout'')), ?w)"
    by (simp add: gateway_defs example_defs failingNext_def Let_def)
  have ok: "UpdateTrafficSplit ?w ?c 0 = (None, ?w2)"
    by (simp add: gateway_defs example_defs Let_def)
  have run: "handleRollingBack exampleReconciler ?w ?c = (Return (emptyResult, None), ?c', ?w3)"
    by (simp add: handler_defs gateway_defs client_defs phase_defs example_defs Let_def)
  have ph: "Phase (Status ?c) = CanaryDeploymentPhaseRollingBack"
    "Phase (Status ?c') = CanaryDeploymentPhaseFailed"
    by (simp_all add: phase_defs exampleCanary_def)
  from handleRollingBack_reset_then_failed
         [of "failingNext ?w" ?c
             "Wrapped ''failed to get HTTPRoute demo/app-route'' (Failure ''timeout'')" ?w
             exampleReconciler]
       bad
  have first: "handleRollingBack exampleReconciler (failingNext ?w) ?c
                 = (Return (requeueAfter (Second * 10), None), ?c, ?w)"
    by blast
  from handleRollingBack_reset_then_failed
         [of ?w ?c _ _ exampleReconciler ?w2 "Return (emptyResult, None)" ?c' ?w3]
       ok run ph
  have "\<exists>w2. UpdateTrafficSplit ?w ?c 0 = (None, w2)"
    by blast
  with bad first ok run ph show ?thesis by blast
qed

text \<open>
  C2, amended. \<open>validateCanaryDeployment\<close> makes none of the well-formedness checks and
  never returns an error. A reconcile of a Pending rollout therefore sets, whatever the spec,
  the phase Progressing with the message "Starting canary deployment" and hands that status
  to the store; it asks to be called again after 5 s when the store accepts the status, and
  returns the store's error otherwise. The phase Failed is not set.
\<close>

theorem handlePending_always_progressing:
  "validateCanaryDeployment w canary = None
   \<and> (\<exists>e w'. handlePending r w canary =
         (Return (if e = None then requeueAfter (Second * 5) else emptyResult, e),
          canary\<lparr>Status := (Status canary)
             \<lparr>Phase := CanaryDeploymentPhaseProgressing,
              Message := ''Starting canary deployment'',
              LastTransitionTime := Some (clock w)\<rparr>\<rparr>, w')
        \<and> (e = None \<and> canaries w' =
              map (\<lambda>x. if isCanary (Namespace canary) (Name canary) x
                        then x\<lparr>Status := (Status canary)
                           \<lparr>Phase := CanaryDeploymentPhaseProgressing,
                            Message := ''Starting canary deployment'',
                            LastTransitionTime := Some (clock w)\<rparr>\<rparr>
                        else x) (canaries w)
            \<or> e \<noteq> None \<and> canaries w' = canaries w))
   \<and> Phase (Status (fst (snd (handlePending r w canary)))) \<noteq> CanaryDeploymentPhaseFailed"
proof -
  let ?c1 = "canary\<lparr>Status := (Status canary)
             \<lparr>Phase := CanaryDeploymentPhaseProgressing,
              Message := ''Starting canary deployment'',
              LastTransitionTime := Some (clock w)\<rparr>\<rparr>"
  obtain e w' where u: "client_Status_Update w ?c1 = (e, w')"
    by (cases "client_Status_Update w ?c1") auto
  have v: "validateCanaryDeployment w canary = None"
    by (simp add: validateCanaryDeployment_def)
  from u v have h: "handlePending r w canary =
         (Return (if e = None then requeueAfter (Second * 5) else emptyResult, e), ?c1, w')"
    by (auto simp: handlePending_def Let_def)
  from client_Status_Update_cases [OF u]
  have st: "e = None \<and> canaries w' =
              map (\<lambda>x. if isCanary (Namespace canary) (Name canary) x
                        then x\<lparr>Status := Status ?c1\<rparr> else x) (canaries w)
            \<or> e \<noteq> None \<and> canaries w' = canaries w"
    by auto
  have "Phase (Status (fst (snd (handlePending r w canary)))) \<noteq> CanaryDeploymentPhaseFailed"
    by (simp add: h phase_defs)
  with v h st show ?thesis by auto
qed

theorem handlePending_always_progressing_witness:
  "validateCanaryDeployment (exampleWorld unreachable (exampleCanary ''Pending''))
       (exampleCanary ''Pending'') = None
   \<and> handlePending exampleReconciler (exampleWorld unreachable (exampleCanary ''Pending''))
         (exampleCanary ''Pending'')
       = (Return (requeueAfter (Second * 5), None),
          (exampleCanary ''Pending'')\<lparr>Status := (Status (exampleCanary ''Pending''))
             \<lparr>Phase := ''Progressing'', Message := ''Starting canary deployment'',
              LastTransitionTime := Some 7\<rparr>\<rparr>,
          (exampleWorld unreachable (exampleCanary ''Pending''))
            \<lparr>canaries := [(exampleCanary ''Pending'')\<lparr>Status := (Status (exampleCanary ''Pending''))
               \<lparr>Phase := ''Progressing'', Message := ''Starting canary deployment'',
                LastTransitionTime := Some 7\<rparr>\<rparr>]\<rparr>)
   \<and> Phase (Status (fst (snd (handlePending exampleReconciler
         (exampleWorld unreachable (exampleCanary ''Pending'')) (exampleCanary ''Pending''))))) \<noteq>
       CanaryDeploymentPhaseFailed"
proof -
  have run: "handlePending exampleReconciler (exampleWorld unreachable (exampleCanary ''Pending''))
         (exampleCanary ''Pending'')
       = (Return (requeueAfter (Second * 5), None),
          (exampleCanary ''Pending'')\<lparr>Status := (Status (exampleCanary ''Pending''))
             \<lparr>Phase := ''Progressing'', Message := ''Starting canary deployment'',
              LastTransitionTime := Some 7\<rparr>\<rparr>,
          (exampleWorld unreachable (exampleCanary ''Pending''))
            \<lparr>canaries := [(exampleCanary ''Pending'')\<lparr>Status := (Status (exampleCanary ''Pending''))
               \<lparr>Phase := ''Progressing'', Message := ''Starting canary deployment'',
                LastTransitionTime := Some 7\<rparr>\<rparr>]\<rparr>)"
    by (simp add: handler_defs client_defs phase_defs example_defs Let_def)
  from handlePending_always_progressing
         [of "exampleWorld unreachable (exampleCanary ''Pending'')" "exampleCanary ''Pending''"
             exampleReconciler] run
  show ?thesis by blast
qed

text \<open>
  A Pending rollout with no step at all, a route that does not exist and an analysis operator
  that is not recognised is moved to Progressing, not to Failed.
\<close>

theorem handlePending_counterexample:
  "TrafficSplit (Spec (withMetrics [oddMetric] ((exampleCanary ''Pending'')
       \<lparr>Spec := exampleSpec\<lparr>TrafficSplit := [],
                             Gateway := \<lparr>gw_HTTPRoute = ''missing'', gw_Gateway = [],
                                        gw_Namespace = []\<rparr>\<rparr>\<rparr>))) = []
   \<and> fst (client_Get_HTTPRoute (exampleWorld unreachable (exampleCanary ''Pending'')) ''demo'' ''missing'')
       = Inl (NotFound ''missing not found'')
   \<and> Phase (Status (fst (snd (handlePending exampleReconciler
        (exampleWorld unreachable (exampleCanary ''Pending''))
        (withMetrics [oddMetric] ((exampleCanary ''Pending'')
           \<lparr>Spec := exampleSpec\<lparr>TrafficSplit := [],
                                 Gateway := \<lparr>gw_HTTPRoute = ''missing'', gw_Gateway = [],
                                            gw_Namespace = []\<rparr>\<rparr>\<rparr>))))))
       = CanaryDeploymentPhaseProgressing
   \<and> CanaryDeploymentPhaseProgressing \<noteq> CanaryDeploymentPhaseFailed
   \<and> map (Phase \<circ> Status) (canaries (snd (snd (handlePending exampleReconciler
        (exampleWorld unreachable (exampleCanary ''Pending''))
        (withMetrics [oddMetric] ((exampleCanary ''Pending'')
           \<lparr>Spec := exampleSpec\<lparr>TrafficSplit := [],
                                 Gateway := \<lparr>gw_HTTPRoute = ''missing'', gw_Gateway = [],
                                            gw_Namespace = []\<rparr>\<rparr>\<rparr>))))))
       = [CanaryDeploymentPhaseProgressing]"
  by (simp add: handler_defs client_defs gateway_defs phase_defs example_defs oddMetric_def
        Let_def)

text \<open>
  C3, amended. \<open>handlePaused\<close> does not read the promote annotation. For a Paused rollout
  that carries promote = "true", and neither resume = "true" nor abort = "true", a reconcile
  changes nothing: the annotation stays, the status keeps its phase and its step, nothing is
  written to the store, and the handler asks to be called again after 30 s.
\<close>

theorem handlePaused_ignores_promote:
  assumes "annotation canary ''gateway-cd.io/promote'' = ''true''"
    and "annotation canary ''gateway-cd.io/resume'' \<noteq> ''true''"
    and "annotation canary ''gateway-cd.io/abort'' \<noteq> ''true''"
  shows "handlePaused r w canary = (Return (requeueAfter (Second * 30), None), canary, w)"
  using assms by (simp add: handlePaused_def)

theorem handlePaused_ignores_promote_witness:
  "annotation (withAnnotation ''gateway-cd.io/promote'' (exampleCanary ''Paused''))
       ''gateway-cd.io/promote'' = ''true''
   \<and> annotation (withAnnotation ''gateway-cd.io/promote'' (exampleCanary ''Paused''))
       ''gateway-cd.io/resume'' \<noteq> ''true''
   \<and> annotation (withAnnotation ''gateway-cd.io/promote'' (exampleCanary ''Paused''))
       ''gateway-cd.io/abort'' \<noteq> ''true''
   \<and> handlePaused exampleReconciler
         (exampleWorld unreachable
            (withAnnotation ''gateway-cd.io/promote'' (exampleCanary ''Paused'')))
         (withAnnotation ''gateway-cd.io/promote'' (exampleCanary ''Paused''))
       = (Return (requeueAfter (Second * 30), None),
          withAnnotation ''gateway-cd.io/promote'' (exampleCanary ''Paused''),
          exampleWorld unreachable
            (withAnnotation ''gateway-cd.io/promote'' (exampleCanary ''Paused'')))"
proof -
  let ?c = "withAnnotation ''gateway-cd.io/promote'' (exampleCanary ''Paused'')"
  have p: "annotation ?c ''gateway-cd.io/promote'' = ''true''"
    and r: "annotation ?c ''gateway-cd.io/resume'' \<noteq> ''true''"
    and a: "annotation ?c ''gateway-cd.io/abort'' \<noteq> ''true''"
    by (simp_all add: annotation_def withAnnotation_def exampleCanary_def)
  from handlePaused_ignores_promote [OF p r a, of exampleReconciler "exampleWorld unreachable ?c"]
    p r a
  show ?thesis by blast
qed

text \<open>
  A Paused rollout at step 0 of two, with promote = "true": after the reconcile the phase is
  Paused, the step is 0 and the annotation is still there.
\<close>

theorem handlePaused_promote_counterexample:
  "annotation (withAnnotation ''gateway-cd.io/promote'' (exampleCanary ''Paused''))
       ''gateway-cd.io/promote'' = ''true''
   \<and> length (TrafficSplit (Spec (withAnnotation ''gateway-cd.io/promote'' (exampleCanary ''Paused''))))
       = 2
   \<and> fst (handlePaused exampleReconciler
         (exampleWorld unreachable
            (withAnnotation ''gateway-cd.io/promote'' (exampleCanary ''Paused'')))
         (withAnnotation ''gateway-cd.io/promote'' (exampleCanary ''Paused'')))
       = Return (requeueAfter (Second * 30), None)
   \<and> Phase (Status (fst (snd (handlePaused exampleReconciler
         (exampleWorld unreachable
            (withAnnotation ''gateway-cd.io/promote'' (exampleCanary ''Paused'')))
         (withAnnotation ''gateway-cd.io/promote'' (exampleCanary ''Paused''))))))
       = CanaryDeploymentPhasePaused
   \<and> sint (CurrentStep (Status (fst (snd (handlePaused exampleReconciler
         (exampleWorld unreachable
            (withAnnotation ''gateway-cd.io/promote'' (exampleCanary ''Paused'')))
         (withAnnotation ''gateway-cd.io/promote'' (exampleCanary ''Paused''))))))) = 0
   \<and> annotation (fst (snd (handlePaused exampleReconciler
         (exampleWorld unreachable
            (withAnnotation ''gateway-cd.io/promote'' (exampleCanary ''Paused'')))
         (withAnnotation ''gateway-cd.io/promote'' (exampleCanary ''Paused'')))))
       ''gateway-cd.io/promote'' = ''true''"
  by (simp add: handler_defs phase_defs example_defs withAnnotation_def)

text \<open>
  C4. The reconcile of a Paused rollout that acts on resume = "true" removes that annotation,
  in memory and in the store. The one that acts on abort = "true" sets the phase RollingBack
  and leaves the abort annotation where it is, in memory and in the store.
\<close>

theorem handlePaused_abort_keeps_annotation:
  "Phase (Status (fst (snd (handlePaused exampleReconciler
       (exampleWorld unreachable (withAnnotation ''gateway-cd.io/abort'' (exampleCanary ''Paused'')))
       (withAnnotation ''gateway-cd.io/abort'' (exampleCanary ''Paused''))))))
     = CanaryDeploymentPhaseRollingBack
   \<and> annotation (fst (snd (handlePaused exampleReconciler
       (exampleWorld unreachable (withAnnotation ''gateway-cd.io/abort'' (exampleCanary ''Paused'')))
       (withAnnotation ''gateway-cd.io/abort'' (exampleCanary ''Paused'')))))
       ''gateway-cd.io/abort'' = ''true''
   \<and> map (Phase \<circ> Status) (canaries (snd (snd (handlePaused exampleReconciler
       (exampleWorld unreachable (withAnnotation ''gateway-cd.io/abort'' (exampleCanary ''Paused'')))
       (withAnnotation ''gateway-cd.io/abort'' (exampleCanary ''Paused''))))))
       = [CanaryDeploymentPhaseRollingBack]
   \<and> annotation (hd (canaries (snd (snd (handlePaused exampleReconciler
       (exampleWorld unreachable (withAnnotation ''gateway-cd.io/abort'' (exampleCanary ''Paused'')))
       (withAnnotation ''gateway-cd.io/abort'' (exampleCanary ''Paused'')))))))
       ''gateway-cd.io/abort'' = ''true''
   \<and> annotation (fst (snd (handlePaused exampleReconciler
       (exampleWorld unreachable (withAnnotation ''gateway-cd.io/resume'' (exampleCanary ''Paused'')))
       (withAnnotation ''gateway-cd.io/resume'' (exampleCanary ''Paused'')))))
       ''gateway-cd.io/resume'' = []
   \<and> annotation (hd (canaries (snd (snd (handlePaused exampleReconciler
       (exampleWorld unreachable (withAnnotation ''gateway-cd.io/resume'' (exampleCanary ''Paused'')))
       (withAnnotation ''gateway-cd.io/resume'' (exampleCanary ''Paused'')))))))
       ''gateway-cd.io/resume'' = []"
  by (simp add: handler_defs client_defs phase_defs example_defs withAnnotation_def Let_def)

lemma replaceQueryPlaceholders_frame [simp]:
  "replaceQueryPlaceholders (w\<lparr>faults := fs\<rparr>) q c = replaceQueryPlaceholders w q c"
  "replaceQueryPlaceholders (w\<lparr>routes := rs\<rparr>) q c = replaceQueryPlaceholders w q c"
  "replaceQueryPlaceholders w q (c\<lparr>Status := s\<rparr>) = replaceQueryPlaceholders w q c"
  by (simp_all add: replaceQueryPlaceholders_def)

lemma evaluateMetric_status [simp]:
  "evaluateMetric p w (c\<lparr>Status := s\<rparr>) m = evaluateMetric p w c m"
  by (simp add: evaluateMetric_def)

lemma RunAnalysis_metrics_status [simp]:
  "RunAnalysis_metrics p (c\<lparr>Status := s\<rparr>) ms res w = RunAnalysis_metrics p c ms res w"
  by (induction ms arbitrary: res w)
     (simp_all add: Let_def split: prod.splits outcome.splits sum.splits)

lemma getSuccessRate_status [simp]:
  "getSuccessRate p w (c\<lparr>Status := s\<rparr>) = getSuccessRate p w c"
  by (simp add: getSuccessRate_def successRateQuery_def)

lemma getAverageLatency_status [simp]:
  "getAverageLatency p w (c\<lparr>Status := s\<rparr>) = getAverageLatency p w c"
  by (simp add: getAverageLatency_def latencyQuery_def)

lemma RunAnalysis_successRate_status [simp]:
  "RunAnalysis_successRate p (c\<lparr>Status := s\<rparr>) res w = RunAnalysis_successRate p c res w"
  by (simp add: RunAnalysis_successRate_def Let_def split: prod.splits outcome.splits sum.splits)

lemma RunAnalysis_latency_status [simp]:
  "RunAnalysis_latency p (c\<lparr>Status := s\<rparr>) res w = RunAnalysis_latency p c res w"
  by (simp add: RunAnalysis_latency_def Let_def split: prod.splits outcome.splits sum.splits)

lemma RunAnalysis_status [simp]:
  "RunAnalysis p w (c\<lparr>Status := s\<rparr>) = RunAnalysis p w c"
  by (simp add: RunAnalysis_def Let_def split: prod.splits outcome.splits option.splits)

lemma RunAnalysis_metrics_world:
  "RunAnalysis_metrics p c ms res w = (out, res', w') \<Longrightarrow> \<exists>qs. w' = w\<lparr>queries := qs\<rparr>"
proof (induction ms arbitrary: res w)
  case Nil
  then have "w' = w\<lparr>queries := queries w\<rparr>" by simp
  then show ?case by blast
next
  case (Cons m ms)
  let ?w1 = "w\<lparr>queries := queries w @ [replaceQueryPlaceholders w (Query m) c]\<rparr>"
  show ?case
  proof (cases "fst (GetMetric p w (replaceQueryPlaceholders w (Query m) c))")
    case Panic
    with Cons.prems have "w' = ?w1" by (simp add: evaluateMetric_cases)
    then show ?thesis by blast
  next
    case (Return x)
    show ?thesis
    proof (cases x)
      case (Inl e)
      with Return Cons.prems have "w' = ?w1" by (simp add: evaluateMetric_cases)
      then show ?thesis by blast
    next
      case (Inr v)
      with Return Cons.prems obtain res2 where
        "RunAnalysis_metrics p c ms res2 ?w1 = (out, res', w')"
        by (auto simp: evaluateMetric_cases Let_def split: if_splits)
      from Cons.IH [OF this] obtain qs where "w' = ?w1\<lparr>queries := qs\<rparr>" by blast
      then have "w' = w\<lparr>queries := qs\<rparr>" by simp
      then show ?thesis by blast
    qed
  qed
qed

lemma RunAnalysis_successRate_world:
  "RunAnalysis_successRate p c res w = (out, res', w') \<Longrightarrow> \<exists>qs. w' = w\<lparr>queries := qs\<rparr>"
proof -
  assume a: "RunAnalysis_successRate p c res w = (out, res', w')"
  have "w' = w\<lparr>queries := queries w\<rparr> \<or> w' = w\<lparr>queries := queries w @ [successRateQuery c]\<rparr>"
    using a
    by (auto simp: RunAnalysis_successRate_def getSuccessRate_def Let_def
             split: if_splits prod.splits outcome.splits sum.splits dest: GetMetric_world')
  then show ?thesis by blast
qed

lemma RunAnalysis_latency_world:
  "RunAnalysis_latency p c res w = (out, res', w') \<Longrightarrow> \<exists>qs. w' = w\<lparr>queries := qs\<rparr>"
proof -
  assume a: "RunAnalysis_latency p c res w = (out, res', w')"
  have "w' = w\<lparr>queries := queries w\<rparr> \<or> w' = w\<lparr>queries := queries w @ [latencyQuery c]\<rparr>"
    using a
    by (auto simp: RunAnalysis_latency_def getAverageLatency_def Let_def
             split: if_splits prod.splits outcome.splits sum.splits dest: GetMetric_world')
  then show ?thesis by blast
qed

lemma RunAnalysis_world:
  assumes "RunAnalysis p w c = (out, w')"
  shows "\<exists>qs. w' = w\<lparr>queries := qs\<rparr>"
proof -
  let ?res0 = "\<lparr>ar_Phase = ''Running'', ar_SuccessRate = Finite 0, ar_AverageLatency = 0,
                 ar_MetricResults = [], ar_StartedAt = Some (clock w),
                 ar_CompletedAt = None, ar_Passed = True\<rparr>"
  obtain o1 res1 w1 where m: "RunAnalysis_metrics p c (Metrics (Analysis (Spec c))) ?res0 w
      = (o1, res1, w1)"
    by (cases "RunAnalysis_metrics p c (Metrics (Analysis (Spec c))) ?res0 w") auto
  obtain o2 res2 w2 where s: "RunAnalysis_successRate p c res1 w1 = (o2, res2, w2)"
    by (cases "RunAnalysis_successRate p c res1 w1") auto
  obtain o3 res3 w3 where l: "RunAnalysis_latency p c res2 w2 = (o3, res3, w3)"
    by (cases "RunAnalysis_latency p c res2 w2") auto
  from RunAnalysis_metrics_world [OF m] obtain q1 where q1: "w1 = w\<lparr>queries := q1\<rparr>" by blast
  from RunAnalysis_successRate_world [OF s] q1 obtain q2 where q2: "w2 = w\<lparr>queries := q2\<rparr>"
    by auto
  from RunAnalysis_latency_world [OF l] q2 obtain q3 where q3: "w3 = w\<lparr>queries := q3\<rparr>"
    by auto
  from assms m s l have "w' = w1 \<or> w' = w2 \<or> w' = w3"
    by (auto simp: RunAnalysis_def Let_def split: outcome.splits option.splits)
  with q1 q2 q3 show ?thesis by blast
qed


lemma handleProgressing_unpaused:
  assumes "0 \<le> sint (CurrentStep (Status canary))"
    and "sint (CurrentStep (Status canary)) < int (length (TrafficSplit (Spec canary)))"
    and "step = TrafficSplit (Spec canary) ! nat (sint (CurrentStep (Status canary)))"
    and "UpdateTrafficSplit w canary (scast (Weight step)) = (None, w1)"
    and "\<not> Pause step"
  shows "handleProgressing r w canary =
           analyseStep r w1
             (canary\<lparr>Status := (Status canary)
                \<lparr>CanaryWeight := Weight step,
                 StableWeight := 100 - Weight step,
                 Message := ''Traffic split updated: ''
                   @ showInt (sint (Weight step)) @ ''% canary, ''
                   @ showInt (sint (100 - Weight step)) @ ''% stable''\<rparr>\<rparr>) step"
  using assms by (simp add: handleProgressing_def Let_def)




lemma answered_append:
  "answered p w (xs @ ys) = (answered p w xs \<and> answered p (w\<lparr>queries := queries w @ xs\<rparr>) ys)"
proof (induction xs arbitrary: w)
  case Nil
  show ?case by simp
next
  case (Cons x xs)
  obtain out w1 where g: "GetMetric p w x = (out, w1)" by (cases "GetMetric p w x")
  from GetMetric_world' [OF g] have w1: "w1 = w\<lparr>queries := queries w @ [x]\<rparr>" .
  show ?case
  proof (cases out)
    case Panic
    with g show ?thesis by simp
  next
    case (Return y)
    show ?thesis
    proof (cases y)
      case (Inl e)
      with g Return show ?thesis by simp
    next
      case (Inr v)
      with g Return Cons.IH [of w1] show ?thesis by (simp add: w1)
    qed
  qed
qed

lemma RunAnalysis_metrics_all_answered:
  assumes "answered p w (map (\<lambda>m. replaceQueryPlaceholders w (Query m) c) ms)"
  shows "\<exists>res'. RunAnalysis_metrics p c ms res w =
           (Return None, res',
            w\<lparr>queries := queries w @ map (\<lambda>m. replaceQueryPlaceholders w (Query m) c) ms\<rparr>)"
proof -
  from RunAnalysis_metrics_answered [OF assms] obtain res' w' where
    m: "RunAnalysis_metrics p c ms res w = (Return None, res', w')"
    by blast
  from RunAnalysis_metrics_ok [OF m] have
    "w' = w\<lparr>queries := queries w @ map (\<lambda>m. replaceQueryPlaceholders w (Query m) c) ms\<rparr>"
    by blast
  with m show ?thesis by blast
qed

text \<open>
  The first query that errors makes \<open>RunAnalysis\<close> return an error that wraps the error
  of the query, whichever query it is: that of a named metric, the success-rate query, or
  the latency query.
\<close>

lemma RunAnalysis_metric_error:
  assumes "Metrics (Analysis (Spec c)) = pre @ metric # post"
    and "answered p w (map (\<lambda>m. replaceQueryPlaceholders w (Query m) c) pre)"
    and "fst (GetMetric p
               (w\<lparr>queries := queries w @ map (\<lambda>m. replaceQueryPlaceholders w (Query m) c) pre\<rparr>)
               (replaceQueryPlaceholders w (Query metric) c)) = Return (Inl e)"
  shows "\<exists>result w2. RunAnalysis p w c =
           (Return (result, Some (Wrapped (''failed to evaluate metric '' @ am_Name metric) e)), w2)"
proof -
  let ?q = "\<lambda>m. replaceQueryPlaceholders w (Query m) c"
  let ?res0 = "\<lparr>ar_Phase = ''Running'', ar_SuccessRate = Finite 0, ar_AverageLatency = 0,
                 ar_MetricResults = [], ar_StartedAt = Some (clock w),
                 ar_CompletedAt = None, ar_Passed = True\<rparr>"
  let ?w1 = "w\<lparr>queries := queries w @ map ?q pre\<rparr>"
  from RunAnalysis_metrics_all_answered [OF assms(2)] obtain res1 where
    m1: "RunAnalysis_metrics p c pre ?res0 w = (Return None, res1, ?w1)"
    by blast
  have ev: "evaluateMetric p ?w1 c metric
              = (Return (Inl e), ?w1\<lparr>queries := queries ?w1 @ [?q metric]\<rparr>)"
    using assms(3) by (simp add: evaluateMetric_cases)
  have "RunAnalysis_metrics p c (pre @ metric # post) ?res0 w
          = (Return (Some (Wrapped (''failed to evaluate metric '' @ am_Name metric) e)),
             res1\<lparr>ar_Phase := ''Failed'', ar_Passed := False\<rparr>,
             ?w1\<lparr>queries := queries ?w1 @ [?q metric]\<rparr>)"
    by (simp add: RunAnalysis_metrics_append m1 ev)
  then have "RunAnalysis p w c
          = (Return (res1\<lparr>ar_Phase := ''Failed'', ar_Passed := False\<rparr>,
                     Some (Wrapped (''failed to evaluate metric '' @ am_Name metric) e)),
             ?w1\<lparr>queries := queries ?w1 @ [?q metric]\<rparr>)"
    by (simp add: RunAnalysis_def assms(1) Let_def)
  then show ?thesis by blast
qed

lemma RunAnalysis_successRate_error:
  assumes "answered p w (map (\<lambda>m. replaceQueryPlaceholders w (Query m) c)
                            (Metrics (Analysis (Spec c))))"
    and "f64_gt (SuccessRate (Analysis (Spec c))) (Finite 0)"
    and "fst (GetMetric p
               (w\<lparr>queries := queries w @ map (\<lambda>m. replaceQueryPlaceholders w (Query m) c)
                                             (Metrics (Analysis (Spec c)))\<rparr>)
               (successRateQuery c)) = Return (Inl e)"
  shows "\<exists>result w2. RunAnalysis p w c =
           (Return (result, Some (Wrapped ''failed to get success rate'' e)), w2)"
proof -
  let ?q = "\<lambda>m. replaceQueryPlaceholders w (Query m) c"
  let ?ms = "Metrics (Analysis (Spec c))"
  let ?res0 = "\<lparr>ar_Phase = ''Running'', ar_SuccessRate = Finite 0, ar_AverageLatency = 0,
                 ar_MetricResults = [], ar_StartedAt = Some (clock w),
                 ar_CompletedAt = None, ar_Passed = True\<rparr>"
  let ?w1 = "w\<lparr>queries := queries w @ map ?q ?ms\<rparr>"
  from RunAnalysis_metrics_all_answered [OF assms(1)] obtain res1 where
    m1: "RunAnalysis_metrics p c ?ms ?res0 w = (Return None, res1, ?w1)"
    by blast
  obtain w2 where g: "GetMetric p ?w1 (successRateQuery c) = (Return (Inl e), w2)"
    using assms(3) by (cases "GetMetric p ?w1 (successRateQuery c)") simp
  then have "RunAnalysis_successRate p c res1 ?w1
          = (Return (Some (Wrapped ''failed to get success rate'' e)),
             res1\<lparr>ar_Phase := ''Failed'', ar_Passed := False\<rparr>, w2)"
    using assms(2) by (simp add: RunAnalysis_successRate_def getSuccessRate_def)
  with m1 have "RunAnalysis p w c
          = (Return (res1\<lparr>ar_Phase := ''Failed'', ar_Passed := False\<rparr>,
                     Some (Wrapped ''failed to get success rate'' e)), w2)"
    by (simp add: RunAnalysis_def Let_def)
  then show ?thesis by blast
qed

lemma RunAnalysis_latency_error:
  assumes "answered p w (map (\<lambda>m. replaceQueryPlaceholders w (Query m) c)
                            (Metrics (Analysis (Spec c))) @ [successRateQuery c])"
    and "f64_gt (SuccessRate (Analysis (Spec c))) (Finite 0)"
    and "0 < sint (MaxLatency (Analysis (Spec c)))"
    and "fst (GetMetric p
               (w\<lparr>queries := queries w @ map (\<lambda>m. replaceQueryPlaceholders w (Query m) c)
                                             (Metrics (Analysis (Spec c)))
                                         @ [successRateQuery c]\<rparr>)
               (latencyQuery c)) = Return (Inl e)"
  shows "\<exists>result w2. RunAnalysis p w c =
           (Return (result, Some (Wrapped ''failed to get latency'' e)), w2)"
proof -
  let ?q = "\<lambda>m. replaceQueryPlaceholders w (Query m) c"
  let ?ms = "Metrics (Analysis (Spec c))"
  let ?res0 = "\<lparr>ar_Phase = ''Running'', ar_SuccessRate = Finite 0, ar_AverageLatency = 0,
                 ar_MetricResults = [], ar_StartedAt = Some (clock w),
                 ar_CompletedAt = None, ar_Passed = True\<rparr>"
  let ?w1 = "w\<lparr>queries := queries w @ map ?q ?ms\<rparr>"
  let ?w2 = "w\<lparr>queries := queries w @ map ?q ?ms @ [successRateQuery c]\<rparr>"
  from assms(1) have a1: "answered p w (map ?q ?ms)"
    and a2: "answered p ?w1 [successRateQuery c]"
    by (simp_all add: answered_append)
  from RunAnalysis_metrics_all_answered [OF a1] obtain res1 where
    m1: "RunAnalysis_metrics p c ?ms ?res0 w = (Return None, res1, ?w1)"
    by blast
  from a2 obtain v where s: "GetMetric p ?w1 (successRateQuery c) = (Return (Inr v), ?w2)"
    by (auto split: prod.splits outcome.splits sum.splits dest: GetMetric_world')
  let ?res2 = "if f64_lt v (SuccessRate (Analysis (Spec c)))
               then res1\<lparr>ar_SuccessRate := v, ar_Passed := False\<rparr>
               else res1\<lparr>ar_SuccessRate := v\<rparr>"
  from s assms(2) have s2: "RunAnalysis_successRate p c res1 ?w1 = (Return None, ?res2, ?w2)"
    by (simp add: RunAnalysis_successRate_def getSuccessRate_def Let_def)
  obtain w3 where g: "GetMetric p ?w2 (latencyQuery c) = (Return (Inl e), w3)"
    using assms(4) by (cases "GetMetric p ?w2 (latencyQuery c)") simp
  then have l3: "RunAnalysis_latency p c ?res2 ?w2
          = (Return (Some (Wrapped ''failed to get latency'' e)),
             ?res2\<lparr>ar_Phase := ''Failed'', ar_Passed := False\<rparr>, w3)"
    using assms(3) by (simp add: RunAnalysis_latency_def getAverageLatency_def)
  from m1 s2 l3 have "RunAnalysis p w c
          = (Return (?res2\<lparr>ar_Phase := ''Failed'', ar_Passed := False\<rparr>,
                     Some (Wrapped ''failed to get latency'' e)), w3)"
    by (simp add: RunAnalysis_def Let_def)
  then show ?thesis by blast
qed

text \<open>
  An error returned by \<open>RunAnalysis\<close> makes \<open>handleProgressing\<close> keep the phase
  and the step, record the error and ask for a requeue after 30 s.
\<close>

lemma handleProgressing_analysis_error:
  assumes "Phase (Status canary) = CanaryDeploymentPhaseProgressing"
    and "0 \<le> sint (CurrentStep (Status canary))"
    and "sint (CurrentStep (Status canary)) < int (length (TrafficSplit (Spec canary)))"
    and "step = TrafficSplit (Spec canary) ! nat (sint (CurrentStep (Status canary)))"
    and "UpdateTrafficSplit w canary (scast (Weight step)) = (None, w1)"
    and "\<not> Pause step"
    and "\<not> SkipAnalysis (Spec canary)"
    and "f64_gt (SuccessRate (Analysis (Spec canary))) (Finite 0)"
    and "MetricsProvider r = Some p"
    and "RunAnalysis p w1 canary = (Return (result, Some err), w2)"
  shows "\<exists>canary' w'.
           handleProgressing r w canary = (Return (requeueAfter (Second * 30), None), canary', w')
           \<and> canary' = canary\<lparr>Status := (Status canary)
                 \<lparr>CanaryWeight := Weight step, StableWeight := 100 - Weight step,
                  Message := ''Analysis failed: '' @ Error err\<rparr>\<rparr>
           \<and> Phase (Status canary') = CanaryDeploymentPhaseProgressing
           \<and> CurrentStep (Status canary') = CurrentStep (Status canary)
           \<and> (canaries w' = canaries w
               \<or> canaries w' = map (\<lambda>x. if isCanary (Namespace canary) (Name canary) x
                                          then x\<lparr>Status := Status canary'\<rparr> else x) (canaries w))"
proof -
  let ?c1 = "canary\<lparr>Status := (Status canary)
                \<lparr>CanaryWeight := Weight step,
                 StableWeight := 100 - Weight step,
                 Message := ''Traffic split updated: ''
                   @ showInt (sint (Weight step)) @ ''% canary, ''
                   @ showInt (sint (100 - Weight step)) @ ''% stable''\<rparr>\<rparr>"
  let ?c2 = "canary\<lparr>Status := (Status canary)
                 \<lparr>CanaryWeight := Weight step, StableWeight := 100 - Weight step,
                  Message := ''Analysis failed: '' @ Error err\<rparr>\<rparr>"
  have hp: "handleProgressing r w canary = analyseStep r w1 ?c1 step"
    using assms(2-6) by (rule handleProgressing_unpaused)
  have ra: "runAnalysis r w1 ?c1 = (Return (False, Some err), ?c1, w2)"
    using assms(9,10) by (simp add: runAnalysis_def)
  have c2: "?c1\<lparr>Status := (Status ?c1)\<lparr>Message := ''Analysis failed: '' @ Error err\<rparr>\<rparr> = ?c2"
    by simp
  obtain e w3 where u: "client_Status_Update w2 ?c2 = (e, w3)"
    by (cases "client_Status_Update w2 ?c2") auto
  from assms(7,8) ra u c2 have
    h: "handleProgressing r w canary = (Return (requeueAfter (Second * 30), None), ?c2, w3)"
    by (simp add: hp analyseStep_def Let_def)
  from UpdateTrafficSplit_ok [OF assms(5)] have "canaries w1 = canaries w" by auto
  moreover from RunAnalysis_world [OF assms(10)] have "canaries w2 = canaries w1" by auto
  ultimately have st: "canaries w3 = canaries w
      \<or> canaries w3 = map (\<lambda>x. if isCanary (Namespace canary) (Name canary) x
                                then x\<lparr>Status := Status ?c2\<rparr> else x) (canaries w)"
    using client_Status_Update_world [OF u] by auto
  show ?thesis
  proof (intro exI conjI)
    show "handleProgressing r w canary = (Return (requeueAfter (Second * 30), None), ?c2, w3)"
      by (rule h)
    show "?c2 = ?c2" by (rule refl)
    show "Phase (Status ?c2) = CanaryDeploymentPhaseProgressing"
      using assms(1) by simp
    show "CurrentStep (Status ?c2) = CurrentStep (Status canary)" by simp
    show "canaries w3 = canaries w
      \<or> canaries w3 = map (\<lambda>x. if isCanary (Namespace canary) (Name canary) x
                                then x\<lparr>Status := Status ?c2\<rparr> else x) (canaries w)"
      by (rule st)
  qed
qed

text \<open>
  C1, amended. In Progressing, after a successful weight change on an unpaused step, with
  the analysis not skipped, a success rate criterion above 0 and a metrics provider, the
  first error of a backend query, be it the query of a named metric, the success-rate query
  or the latency query, is returned by \<open>RunAnalysis\<close> as an error and treated as a
  transient error: the handler records "Analysis failed: ..." with the wrapped error of the
  query in the message, keeps the phase Progressing and the step, hands that status to the
  store and asks to be called again after 30 s. The phase RollingBack is not set.
\<close>

theorem analysis_error_stays_progressing:
  assumes "Phase (Status canary) = CanaryDeploymentPhaseProgressing"
    and "0 \<le> sint (CurrentStep (Status canary))"
    and "sint (CurrentStep (Status canary)) < int (length (TrafficSplit (Spec canary)))"
    and "step = TrafficSplit (Spec canary) ! nat (sint (CurrentStep (Status canary)))"
    and "UpdateTrafficSplit w canary (scast (Weight step)) = (None, w1)"
    and "\<not> Pause step"
    and "\<not> SkipAnalysis (Spec canary)"
    and "f64_gt (SuccessRate (Analysis (Spec canary))) (Finite 0)"
    and "MetricsProvider r = Some p"
    and "Metrics (Analysis (Spec canary)) = pre @ metric # post
           \<and> answered p w1 (map (\<lambda>m. replaceQueryPlaceholders w1 (Query m) canary) pre)
           \<and> fst (GetMetric p
                    (w1\<lparr>queries := queries w1
                           @ map (\<lambda>m. replaceQueryPlaceholders w1 (Query m) canary) pre\<rparr>)
                    (replaceQueryPlaceholders w1 (Query metric) canary)) = Return (Inl e)
         \<or> answered p w1 (map (\<lambda>m. replaceQueryPlaceholders w1 (Query m) canary)
                              (Metrics (Analysis (Spec canary))))
           \<and> fst (GetMetric p
                    (w1\<lparr>queries := queries w1
                           @ map (\<lambda>m. replaceQueryPlaceholders w1 (Query m) canary)
                               (Metrics (Analysis (Spec canary)))\<rparr>)
                    (successRateQuery canary)) = Return (Inl e)
         \<or> 0 < sint (MaxLatency (Analysis (Spec canary)))
           \<and> answered p w1 (map (\<lambda>m. replaceQueryPlaceholders w1 (Query m) canary)
                                (Metrics (Analysis (Spec canary))) @ [successRateQuery canary])
           \<and> fst (GetMetric p
                    (w1\<lparr>queries := queries w1
                           @ map (\<lambda>m. replaceQueryPlaceholders w1 (Query m) canary)
                               (Metrics (Analysis (Spec canary)))
                           @ [successRateQuery canary]\<rparr>)
                    (latencyQuery canary)) = Return (Inl e)"
  shows "\<exists>prefix result w2 canary' w'.
           RunAnalysis p w1 canary = (Return (result, Some (Wrapped prefix e)), w2)
           \<and> handleProgressing r w canary = (Return (requeueAfter (Second * 30), None), canary', w')
           \<and> canary' = canary\<lparr>Status := (Status canary)
                 \<lparr>CanaryWeight := Weight step, StableWeight := 100 - Weight step,
                  Message := ''Analysis failed: '' @ Error (Wrapped prefix e)\<rparr>\<rparr>
           \<and> Phase (Status canary') = CanaryDeploymentPhaseProgressing
           \<and> CurrentStep (Status canary') = CurrentStep (Status canary)
           \<and> (canaries w' = canaries w
               \<or> canaries w' = map (\<lambda>x. if isCanary (Namespace canary) (Name canary) x
                                          then x\<lparr>Status := Status canary'\<rparr> else x) (canaries w))"
proof -
  from assms(10) obtain prefix result w2 where
    run: "RunAnalysis p w1 canary = (Return (result, Some (Wrapped prefix e)), w2)"
  proof (elim disjE conjE)
    assume "Metrics (Analysis (Spec canary)) = pre @ metric # post"
      and "answered p w1 (map (\<lambda>m. replaceQueryPlaceholders w1 (Query m) canary) pre)"
      and "fst (GetMetric p
                    (w1\<lparr>queries := queries w1
                           @ map (\<lambda>m. replaceQueryPlaceholders w1 (Query m) canary) pre\<rparr>)
                    (replaceQueryPlaceholders w1 (Query metric) canary)) = Return (Inl e)"
    from RunAnalysis_metric_error [OF this] that show ?thesis by blast
  next
    assume "answered p w1 (map (\<lambda>m. replaceQueryPlaceholders w1 (Query m) canary)
                              (Metrics (Analysis (Spec canary))))"
      and "fst (GetMetric p
                    (w1\<lparr>queries := queries w1
                           @ map (\<lambda>m. replaceQueryPlaceholders w1 (Query m) canary)
                               (Metrics (Analysis (Spec canary)))\<rparr>)
                    (successRateQuery canary)) = Return (Inl e)"
    from RunAnalysis_successRate_error [OF this(1) assms(8) this(2)] that show ?thesis by blast
  next
    assume "0 < sint (MaxLatency (Analysis (Spec canary)))"
      and "answered p w1 (map (\<lambda>m. replaceQueryPlaceholders w1 (Query m) canary)
                                (Metrics (Analysis (Spec canary))) @ [successRateQuery canary])"
      and "fst (GetMetric p
                    (w1\<lparr>queries := queries w1
                           @ map (\<lambda>m. replaceQueryPlaceholders w1 (Query m) canary)
                               (Metrics (Analysis (Spec canary)))
                           @ [successRateQuery canary]\<rparr>)
                    (latencyQuery canary)) = Return (Inl e)"
    from RunAnalysis_latency_error [OF this(2) assms(8) this(1) this(3)] that
    show ?thesis by blast
  qed
  from handleProgressing_analysis_error [OF assms(1-9) run] obtain canary' w' where
    "handleProgressing r w canary = (Return (requeueAfter (Second * 30), None), canary', w')"
    and "canary' = canary\<lparr>Status := (Status canary)
                 \<lparr>CanaryWeight := Weight step, StableWeight := 100 - Weight step,
                  Message := ''Analysis failed: '' @ Error (Wrapped prefix e)\<rparr>\<rparr>"
    and "Phase (Status canary') = CanaryDeploymentPhaseProgressing"
    and "CurrentStep (Status canary') = CurrentStep (Status canary)"
    and "canaries w' = canaries w
               \<or> canaries w' = map (\<lambda>x. if isCanary (Namespace canary) (Name canary) x
                                          then x\<lparr>Status := Status canary'\<rparr> else x) (canaries w)"
    by (elim exE conjE)
  with run show ?thesis
    by (intro exI [of _ prefix] exI [of _ result] exI [of _ w2] exI [of _ canary'] exI [of _ w']
          conjI)
qed


lemmas criteria_defs = bothCriteria_def metricsOnly_def exampleRoute20_def withSuccessRate_def
  twoMetrics_def

theorem analysis_error_stays_progressing_witness:
  "Phase (Status (exampleCanary ''Progressing'')) = CanaryDeploymentPhaseProgressing
   \<and> 0 \<le> sint (CurrentStep (Status (exampleCanary ''Progressing'')))
   \<and> sint (CurrentStep (Status (exampleCanary ''Progressing'')))
       < int (length (TrafficSplit (Spec (exampleCanary ''Progressing''))))
   \<and> \<lparr>Weight = 20, Duration = ''1s'', Pause = False\<rparr>
       = TrafficSplit (Spec (exampleCanary ''Progressing''))
           ! nat (sint (CurrentStep (Status (exampleCanary ''Progressing''))))
   \<and> \<not> SkipAnalysis (Spec (exampleCanary ''Progressing''))
   \<and> f64_gt (SuccessRate (Analysis (Spec (exampleCanary ''Progressing'')))) (Finite 0)
   \<and> MetricsProvider exampleReconciler = Some \<lparr>baseURL = ''http://prometheus:9090''\<rparr>
   \<and> UpdateTrafficSplit (exampleWorld unreachable (exampleCanary ''Progressing''))
         (exampleCanary ''Progressing'') (scast (20 :: int32))
       = (None, (exampleWorld unreachable (exampleCanary ''Progressing''))
                  \<lparr>routes := [exampleRoute20]\<rparr>)
   \<and> fst (GetMetric \<lparr>baseURL = ''http://prometheus:9090''\<rparr>
            ((exampleWorld unreachable (exampleCanary ''Progressing''))\<lparr>routes := [exampleRoute20]\<rparr>)
            (successRateQuery (exampleCanary ''Progressing'')))
       = Return (Inl (Failure ''connection refused''))
   \<and> fst (handleProgressing exampleReconciler
            (exampleWorld unreachable (exampleCanary ''Progressing'')) (exampleCanary ''Progressing''))
       = Return (requeueAfter (Second * 30), None)
   \<and> Phase (Status (fst (snd (handleProgressing exampleReconciler
            (exampleWorld unreachable (exampleCanary ''Progressing'')) (exampleCanary ''Progressing'')))))
       = CanaryDeploymentPhaseProgressing
   \<and> UpdateTrafficSplit (exampleWorld answersOnce bothCriteria) bothCriteria (scast (20 :: int32))
       = (None, (exampleWorld answersOnce bothCriteria)\<lparr>routes := [exampleRoute20]\<rparr>)
   \<and> answered \<lparr>baseURL = ''http://prometheus:9090''\<rparr>
         ((exampleWorld answersOnce bothCriteria)\<lparr>routes := [exampleRoute20]\<rparr>) [''up_app'']
   \<and> fst (GetMetric \<lparr>baseURL = ''http://prometheus:9090''\<rparr>
            ((exampleWorld answersOnce bothCriteria)
               \<lparr>routes := [exampleRoute20], queries := [''up_app'']\<rparr>) ''errors'')
       = Return (Inl (Failure ''connection refused''))
   \<and> fst (handleProgressing exampleReconciler (exampleWorld answersOnce bothCriteria) bothCriteria)
       = Return (requeueAfter (Second * 30), None)
   \<and> Phase (Status (fst (snd (handleProgressing exampleReconciler
            (exampleWorld answersOnce bothCriteria) bothCriteria))))
       = CanaryDeploymentPhaseProgressing
   \<and> 0 < sint (MaxLatency (Analysis (Spec latencyCanary)))
   \<and> UpdateTrafficSplit (exampleWorld answersOnce latencyCanary) latencyCanary (scast (20 :: int32))
       = (None, (exampleWorld answersOnce latencyCanary)\<lparr>routes := [exampleRoute20]\<rparr>)
   \<and> answered \<lparr>baseURL = ''http://prometheus:9090''\<rparr>
         ((exampleWorld answersOnce latencyCanary)\<lparr>routes := [exampleRoute20]\<rparr>)
         [successRateQuery latencyCanary]
   \<and> fst (GetMetric \<lparr>baseURL = ''http://prometheus:9090''\<rparr>
            ((exampleWorld answersOnce latencyCanary)
               \<lparr>routes := [exampleRoute20], queries := [successRateQuery latencyCanary]\<rparr>)
            (latencyQuery latencyCanary))
       = Return (Inl (Failure ''connection refused''))
   \<and> fst (handleProgressing exampleReconciler (exampleWorld answersOnce latencyCanary) latencyCanary)
       = Return (requeueAfter (Second * 30), None)
   \<and> Phase (Status (fst (snd (handleProgressing exampleReconciler
            (exampleWorld answersOnce latencyCanary) latencyCanary))))
       = CanaryDeploymentPhaseProgressing"
proof -
  let ?p = "\<lparr>baseURL = ''http://prometheus:9090''\<rparr>"
  let ?step = "\<lparr>Weight = 20, Duration = ''1s'', Pause = False\<rparr>"
  let ?e = "Failure ''connection refused''"
  note defs = example_defs criteria_defs latencyCanary_def withMaxLatency_def answersOnce_def
  have h9: "MetricsProvider exampleReconciler = Some ?p"
    by (simp add: exampleReconciler_def)
  have h6: "\<not> Pause ?step" by simp
  \<comment> \<open>The success-rate query errors.\<close>
  let ?b = "exampleCanary ''Progressing''"
  let ?wb = "exampleWorld unreachable ?b"
  let ?wb1 = "?wb\<lparr>routes := [exampleRoute20]\<rparr>"
  let ?hb = "handleProgressing exampleReconciler ?wb ?b"
  have b1: "Phase (Status ?b) = CanaryDeploymentPhaseProgressing"
    and b2: "0 \<le> sint (CurrentStep (Status ?b))"
    and b3: "sint (CurrentStep (Status ?b)) < int (length (TrafficSplit (Spec ?b)))"
    and b4: "?step = TrafficSplit (Spec ?b) ! nat (sint (CurrentStep (Status ?b)))"
    and b7: "\<not> SkipAnalysis (Spec ?b)"
    and b8: "f64_gt (SuccessRate (Analysis (Spec ?b))) (Finite 0)"
    and bm: "Metrics (Analysis (Spec ?b)) = []"
    and bq: "queries ?wb1 = []"
    by (simp_all add: defs phase_defs f64_gt_def)
  have b5': "UpdateTrafficSplit ?wb ?b (scast (20 :: int32)) = (None, ?wb1)"
    by (simp add: gateway_defs defs Let_def)
  then have b5: "UpdateTrafficSplit ?wb ?b (scast (Weight ?step)) = (None, ?wb1)" by simp
  have bg: "fst (GetMetric ?p ?wb1 (successRateQuery ?b)) = Return (Inl ?e)"
    by (simp add: analyzer_defs defs)
  have b10: "answered ?p ?wb1 (map (\<lambda>m. replaceQueryPlaceholders ?wb1 (Query m) ?b)
                                  (Metrics (Analysis (Spec ?b))))
           \<and> fst (GetMetric ?p
                    (?wb1\<lparr>queries := queries ?wb1
                           @ map (\<lambda>m. replaceQueryPlaceholders ?wb1 (Query m) ?b)
                               (Metrics (Analysis (Spec ?b)))\<rparr>)
                    (successRateQuery ?b)) = Return (Inl ?e)"
    using bg by (simp add: bm bq exampleWorld_def)
  from analysis_error_stays_progressing
         [OF b1 b2 b3 b4 b5 h6 b7 b8 h9 disjI2 [OF disjI1 [OF b10]]]
  have rb: "fst ?hb = Return (requeueAfter (Second * 30), None)"
    "Phase (Status (fst (snd ?hb))) = CanaryDeploymentPhaseProgressing"
    by auto
  \<comment> \<open>The query of the second named metric errors.\<close>
  let ?a = bothCriteria
  let ?wa = "exampleWorld answersOnce ?a"
  let ?wa1 = "?wa\<lparr>routes := [exampleRoute20]\<rparr>"
  let ?ha = "handleProgressing exampleReconciler ?wa ?a"
  have a1: "Phase (Status ?a) = CanaryDeploymentPhaseProgressing"
    and a2: "0 \<le> sint (CurrentStep (Status ?a))"
    and a3: "sint (CurrentStep (Status ?a)) < int (length (TrafficSplit (Spec ?a)))"
    and a4: "?step = TrafficSplit (Spec ?a) ! nat (sint (CurrentStep (Status ?a)))"
    and a7: "\<not> SkipAnalysis (Spec ?a)"
    and a8: "f64_gt (SuccessRate (Analysis (Spec ?a))) (Finite 0)"
    and am: "Metrics (Analysis (Spec ?a)) = [hd twoMetrics] @ hd (tl twoMetrics) # []"
    and aq: "queries ?wa1 = []"
    by (simp_all add: defs phase_defs f64_gt_def)
  have a5': "UpdateTrafficSplit ?wa ?a (scast (20 :: int32)) = (None, ?wa1)"
    by (simp add: gateway_defs defs Let_def)
  then have a5: "UpdateTrafficSplit ?wa ?a (scast (Weight ?step)) = (None, ?wa1)" by simp
  have q1: "replaceQueryPlaceholders ?wa (Query (hd twoMetrics)) ?a = ''up_app''"
    and q2: "replaceQueryPlaceholders ?wa (Query (hd (tl twoMetrics))) ?a = ''errors''"
    by (simp_all add: analyzer_defs defs)
  have aa: "answered ?p ?wa1 [''up_app'']"
    by (simp add: analyzer_defs defs)
  have ag: "fst (GetMetric ?p (?wa\<lparr>routes := [exampleRoute20], queries := [''up_app'']\<rparr>) ''errors'')
              = Return (Inl ?e)"
    by (simp add: analyzer_defs defs)
  have a10: "Metrics (Analysis (Spec ?a)) = [hd twoMetrics] @ hd (tl twoMetrics) # []
           \<and> answered ?p ?wa1 (map (\<lambda>m. replaceQueryPlaceholders ?wa1 (Query m) ?a) [hd twoMetrics])
           \<and> fst (GetMetric ?p
                    (?wa1\<lparr>queries := queries ?wa1
                           @ map (\<lambda>m. replaceQueryPlaceholders ?wa1 (Query m) ?a) [hd twoMetrics]\<rparr>)
                    (replaceQueryPlaceholders ?wa1 (Query (hd (tl twoMetrics))) ?a)) = Return (Inl ?e)"
    using am aa ag by (simp add: q1 q2 aq)
  from analysis_error_stays_progressing
         [OF a1 a2 a3 a4 a5 h6 a7 a8 h9 disjI1 [OF a10]]
  have ra: "fst ?ha = Return (requeueAfter (Second * 30), None)"
    "Phase (Status (fst (snd ?ha))) = CanaryDeploymentPhaseProgressing"
    by auto
  \<comment> \<open>The latency query errors.\<close>
  let ?c = latencyCanary
  let ?wc = "exampleWorld answersOnce ?c"
  let ?wc1 = "?wc\<lparr>routes := [exampleRoute20]\<rparr>"
  let ?hc = "handleProgressing exampleReconciler ?wc ?c"
  have c1: "Phase (Status ?c) = CanaryDeploymentPhaseProgressing"
    and c2: "0 \<le> sint (CurrentStep (Status ?c))"
    and c3: "sint (CurrentStep (Status ?c)) < int (length (TrafficSplit (Spec ?c)))"
    and c4: "?step = TrafficSplit (Spec ?c) ! nat (sint (CurrentStep (Status ?c)))"
    and c7: "\<not> SkipAnalysis (Spec ?c)"
    and c8: "f64_gt (SuccessRate (Analysis (Spec ?c))) (Finite 0)"
    and cl: "0 < sint (MaxLatency (Analysis (Spec ?c)))"
    and cm: "Metrics (Analysis (Spec ?c)) = []"
    and cq: "queries ?wc1 = []"
    by (simp_all add: defs phase_defs f64_gt_def)
  have c5': "UpdateTrafficSplit ?wc ?c (scast (20 :: int32)) = (None, ?wc1)"
    by (simp add: gateway_defs defs Let_def)
  then have c5: "UpdateTrafficSplit ?wc ?c (scast (Weight ?step)) = (None, ?wc1)" by simp
  have ca: "answered ?p ?wc1 [successRateQuery ?c]"
    by (simp add: analyzer_defs defs)
  have cg: "fst (GetMetric ?p
                  (?wc\<lparr>routes := [exampleRoute20], queries := [successRateQuery ?c]\<rparr>)
                  (latencyQuery ?c)) = Return (Inl ?e)"
    by (simp add: analyzer_defs defs)
  have c10: "0 < sint (MaxLatency (Analysis (Spec ?c)))
           \<and> answered ?p ?wc1 (map (\<lambda>m. replaceQueryPlaceholders ?wc1 (Query m) ?c)
                                (Metrics (Analysis (Spec ?c))) @ [successRateQuery ?c])
           \<and> fst (GetMetric ?p
                    (?wc1\<lparr>queries := queries ?wc1
                           @ map (\<lambda>m. replaceQueryPlaceholders ?wc1 (Query m) ?c)
                               (Metrics (Analysis (Spec ?c)))
                           @ [successRateQuery ?c]\<rparr>)
                    (latencyQuery ?c)) = Return (Inl ?e)"
    using cl ca cg by (simp add: cm cq)
  from analysis_error_stays_progressing
         [OF c1 c2 c3 c4 c5 h6 c7 c8 h9 disjI2 [OF disjI2 [OF c10]]]
  have rc: "fst ?hc = Return (requeueAfter (Second * 30), None)"
    "Phase (Status (fst (snd ?hc))) = CanaryDeploymentPhaseProgressing"
    by auto
  from b1 b2 b3 b4 b7 b8 h9 b5' bg rb a5' aa ag ra cl c5' ca cg rc
  show ?thesis by (intro conjI)
qed

text \<open>
  The example rollout in Progressing with a backend that cannot be reached: the weight change
  to 20 succeeds, the success-rate query fails, and the rollout is still Progressing at step
  0, in memory and in the store, with a requeue after 30 s.
\<close>

theorem analysis_error_counterexample:
  "fst (GetMetric \<lparr>baseURL = ''http://prometheus:9090''\<rparr>
          (exampleWorld unreachable (exampleCanary ''Progressing''))
          (successRateQuery (exampleCanary ''Progressing'')))
     = Return (Inl (Failure ''connection refused''))
   \<and> fst (handleProgressing exampleReconciler
            (exampleWorld unreachable (exampleCanary ''Progressing'')) (exampleCanary ''Progressing''))
       = Return (requeueAfter (Second * 30), None)
   \<and> Phase (Status (fst (snd (handleProgressing exampleReconciler
            (exampleWorld unreachable (exampleCanary ''Progressing'')) (exampleCanary ''Progressing'')))))
       = CanaryDeploymentPhaseProgressing
   \<and> Message (Status (fst (snd (handleProgressing exampleReconciler
            (exampleWorld unreachable (exampleCanary ''Progressing'')) (exampleCanary ''Progressing'')))))
       = ''Analysis failed: failed to get success rate: connection refused''
   \<and> map (Phase \<circ> Status) (canaries (snd (snd (handleProgressing exampleReconciler
            (exampleWorld unreachable (exampleCanary ''Progressing'')) (exampleCanary ''Progressing'')))))
       = [CanaryDeploymentPhaseProgressing]
   \<and> CanaryDeploymentPhaseProgressing \<noteq> CanaryDeploymentPhaseRollingBack"
  by (simp add: handler_defs analyzer_defs gateway_defs client_defs phase_defs example_defs)




end
